theory Spec2Isabelle
  imports Main "HOL-Library.Word" "HOL-Library.Sublist"
begin

section \<open>JavaScript values used by the OAuth flow\<close>

text \<open>
  A JavaScript string is modelled as a \<open>string\<close> whose characters are code units below 256.
  A value of type \<open>string | undefined\<close> (an unset environment variable, a missing query
  parameter, an absent JSON field) is a \<open>string option\<close>.  A thrown value is a \<open>js_error\<close>:
  \<open>Error m\<close> is an instance of \<open>Error\<close> with message \<open>m\<close>, \<open>NonError\<close> is any other thrown
  value (the test \<open>err instanceof Error\<close> tells them apart).
\<close>

datatype js_error = Error string | NonError string

text \<open>Truthiness of \<open>string | undefined\<close>: \<open>undefined\<close> and the empty string are falsy.\<close>

fun truthy :: "string option \<Rightarrow> bool" where
  "truthy None = False"
| "truthy (Some s) = (s \<noteq> [])"

text \<open>\<open>hay.includes(needle)\<close>: the needle occurs somewhere in the haystack.\<close>

fun js_includes :: "string \<Rightarrow> string \<Rightarrow> bool" where
  "js_includes [] needle = (needle = [])"
| "js_includes (c # cs) needle = (prefix needle (c # cs) \<or> js_includes cs needle)"

text \<open>\<open>s.toLowerCase()\<close> on the letters \<open>A\<close> to \<open>Z\<close>; every other code unit below 128 is kept.\<close>

definition lower_table :: "(char \<times> char) list" where
  "lower_table = zip ''ABCDEFGHIJKLMNOPQRSTUVWXYZ'' ''abcdefghijklmnopqrstuvwxyz''"

definition toLowerCase_char :: "char \<Rightarrow> char" where
  "toLowerCase_char c = (case map_of lower_table c of Some l \<Rightarrow> l | None \<Rightarrow> c)"

definition toLowerCase :: "string \<Rightarrow> string" where
  "toLowerCase s = map toLowerCase_char s"

text \<open>
  \<open>s.trim()\<close>: leading and trailing white space and line terminators are removed.  Below 256
  these are the code units 9 to 13, 32 and 160.
\<close>

definition is_js_space :: "char \<Rightarrow> bool" where
  "is_js_space c = (c \<in> set [CHR 0x09, CHR 0x0A, CHR 0x0B, CHR 0x0C, CHR 0x0D, CHR 0x20, CHR 0xA0])"

definition trim :: "string \<Rightarrow> string" where
  "trim s = rev (dropWhile is_js_space (rev (dropWhile is_js_space s)))"

section \<open>Environment probe\<close>

text \<open>
  What the probe reads: \<open>process.platform\<close>, \<open>process.env\<close>, and the contents of
  \<open>/proc/version\<close> (\<open>None\<close> when \<open>readFileSync\<close> throws).
\<close>

record host =
  platform :: string
  env :: "string \<Rightarrow> string option"
  proc_version :: "string option"

definition isWSL :: "host \<Rightarrow> bool" where
  "isWSL h =
     (if platform h \<noteq> ''linux'' then False
      else case proc_version h of
             None \<Rightarrow> False
           | Some contents \<Rightarrow>
               (let release = toLowerCase contents
                in js_includes release ''microsoft'' \<or> js_includes release ''wsl''))"

definition isWSL2 :: "host \<Rightarrow> bool" where
  "isWSL2 h =
     (if \<not> isWSL h then False
      else case proc_version h of
             None \<Rightarrow> False
           | Some contents \<Rightarrow>
               (let version = toLowerCase contents
                in js_includes version ''wsl2'' \<or> js_includes version ''microsoft-standard''))"

definition isRemoteEnvironment :: "host \<Rightarrow> bool" where
  "isRemoteEnvironment h =
     (if truthy (env h ''SSH_CLIENT'') \<or> truthy (env h ''SSH_TTY'')
         \<or> truthy (env h ''SSH_CONNECTION'') then True
      else if truthy (env h ''REMOTE_CONTAINERS'') \<or> truthy (env h ''CODESPACES'') then True
      else if platform h = ''linux'' \<and> \<not> truthy (env h ''DISPLAY'')
              \<and> \<not> truthy (env h ''WAYLAND_DISPLAY'') \<and> \<not> isWSL h then True
      else False)"

definition shouldUseManualOAuthFlow :: "host \<Rightarrow> bool" where
  "shouldUseManualOAuthFlow h = (isWSL2 h \<or> isRemoteEnvironment h)"

subsection \<open>The three signals as the specification names them\<close>

text \<open>
  The specification describes the decision through three predicates.  They are written here
  from its words, to be compared with the functions above: a marker is set when the
  variable has a non-empty value.
\<close>

definition isContainerish :: "host \<Rightarrow> bool" where
  "isContainerish h =
     list_ex (\<lambda>k. truthy (env h k))
       [''SSH_CLIENT'', ''SSH_TTY'', ''SSH_CONNECTION'', ''REMOTE_CONTAINERS'', ''CODESPACES'']"

definition kernel_version_has :: "host \<Rightarrow> string list \<Rightarrow> bool" where
  "kernel_version_has h needles =
     (platform h = ''linux'' \<and>
      (case proc_version h of
         None \<Rightarrow> False
       | Some contents \<Rightarrow> list_ex (js_includes (toLowerCase contents)) needles))"

definition isLinuxCompatLayer :: "host \<Rightarrow> bool" where
  "isLinuxCompatLayer h = kernel_version_has h [''microsoft'', ''wsl'']"

definition isLinuxCompatLayerGen2 :: "host \<Rightarrow> bool" where
  "isLinuxCompatLayerGen2 h = kernel_version_has h [''wsl2'', ''microsoft-standard'']"

definition isHeadlessLinux :: "host \<Rightarrow> bool" where
  "isHeadlessLinux h =
     (platform h = ''linux'' \<and> \<not> truthy (env h ''DISPLAY'')
      \<and> \<not> truthy (env h ''WAYLAND_DISPLAY'') \<and> \<not> isLinuxCompatLayer h)"

section \<open>Random bytes, hex, base64url and form encoding\<close>

type_synonym byte = "8 word"

text \<open>\<open>buffer.toString("hex")\<close>: two lower-case hexadecimal digits per byte.\<close>

definition hex_digit :: "nat \<Rightarrow> char" where
  "hex_digit n = ''0123456789abcdef'' ! (n mod 16)"

definition hex_byte :: "byte \<Rightarrow> string" where
  "hex_byte b = [hex_digit (unat b div 16), hex_digit (unat b mod 16)]"

definition toString_hex :: "byte list \<Rightarrow> string" where
  "toString_hex bs = concat (map hex_byte bs)"

text \<open>
  \<open>digest("base64url")\<close>: the URL-safe base64 alphabet, six bits per character, no padding.
\<close>

definition base64url_alphabet :: string where
  "base64url_alphabet =
     ''ABCDEFGHIJKLMNOPQRSTUVWXYZabcdefghijklmnopqrstuvwxyz0123456789-_''"

definition sextet :: "nat \<Rightarrow> char" where
  "sextet n = base64url_alphabet ! (n mod 64)"

fun base64url :: "byte list \<Rightarrow> string" where
  "base64url (a # b # c # rest) =
     [sextet (unat a div 4),
      sextet ((unat a mod 4) * 16 + unat b div 16),
      sextet ((unat b mod 16) * 4 + unat c div 64),
      sextet (unat c mod 64)] @ base64url rest"
| "base64url [a, b] =
     [sextet (unat a div 4),
      sextet ((unat a mod 4) * 16 + unat b div 16),
      sextet ((unat b mod 16) * 4)]"
| "base64url [a] = [sextet (unat a div 4), sextet ((unat a mod 4) * 16)]"
| "base64url [] = []"

text \<open>
  \<open>new URLSearchParams({...}).toString()\<close>: the \<open>application/x-www-form-urlencoded\<close>
  serialiser.  Letters, digits and \<open>* - . _\<close> are kept, a space becomes \<open>+\<close>, every other
  code unit is written as the percent-encoded bytes of its UTF-8 form.
\<close>

definition form_safe :: "char \<Rightarrow> bool" where
  "form_safe c =
     (c \<in> set ''*-._0123456789ABCDEFGHIJKLMNOPQRSTUVWXYZabcdefghijklmnopqrstuvwxyz'')"

definition hex_upper :: "nat \<Rightarrow> char" where
  "hex_upper n = ''0123456789ABCDEF'' ! (n mod 16)"

definition percent_byte :: "nat \<Rightarrow> string" where
  "percent_byte n = [CHR ''%'', hex_upper (n div 16), hex_upper (n mod 16)]"

definition form_encode_char :: "char \<Rightarrow> string" where
  "form_encode_char c =
     (if c = CHR '' '' then ''+''
      else if form_safe c then [c]
      else let n = (of_char c :: nat)
           in if n < 128 then percent_byte n
              else percent_byte (192 + n div 64) @ percent_byte (128 + n mod 64))"

definition form_encode :: "string \<Rightarrow> string" where
  "form_encode s = concat (map form_encode_char s)"

fun join :: "string \<Rightarrow> string list \<Rightarrow> string" where
  "join sep [] = []"
| "join sep [x] = x"
| "join sep (x # y # ys) = x @ sep @ join sep (y # ys)"

definition URLSearchParams_toString :: "(string \<times> string) list \<Rightarrow> string" where
  "URLSearchParams_toString params =
     join ''&'' (map (\<lambda>(k, v). form_encode k @ ''='' @ form_encode v) params)"

section \<open>URLs as the flow reads them\<close>

text \<open>
  Of a parsed \<open>URL\<close> object the flow reads the path name and the query parameters.
  \<open>searchParams.get(name)\<close> is the value of the first pair with that name, \<open>null\<close> when
  there is none.
\<close>

record url =
  pathname :: string
  searchParams :: "(string \<times> string) list"

definition searchParams_get :: "url \<Rightarrow> string \<Rightarrow> string option" where
  "searchParams_get u name = map_of (searchParams u) name"

text \<open>
  \<open>new URL(input)\<close> is the platform's parser; the functions below take it as a parameter
  \<open>string \<Rightarrow> url option\<close> (\<open>None\<close> when the constructor throws).  For the worked examples a
  small parser is given: an input is a URL when it starts with a scheme (a letter, then
  letters, digits, \<open>+\<close>, \<open>-\<close> or \<open>.\<close>, then a colon); for \<open>http\<close> and \<open>https\<close> a non-empty
  host must follow; the query runs from the first \<open>?\<close> to the first \<open>#\<close>, pairs are separated
  by \<open>&\<close>, name and value by the first \<open>=\<close>, and \<open>+\<close> and percent escapes are decoded.
\<close>

definition is_alpha :: "char \<Rightarrow> bool" where
  "is_alpha c = (c \<in> set ''ABCDEFGHIJKLMNOPQRSTUVWXYZabcdefghijklmnopqrstuvwxyz'')"

definition is_scheme_char :: "char \<Rightarrow> bool" where
  "is_scheme_char c = (is_alpha c \<or> c \<in> set ''0123456789+-.'')"

definition before :: "char \<Rightarrow> string \<Rightarrow> string" where
  "before c s = takeWhile (\<lambda>x. x \<noteq> c) s"

definition after :: "char \<Rightarrow> string \<Rightarrow> string option" where
  "after c s = (case dropWhile (\<lambda>x. x \<noteq> c) s of [] \<Rightarrow> None | _ # r \<Rightarrow> Some r)"

primrec split_on :: "char \<Rightarrow> string \<Rightarrow> string list" where
  "split_on c [] = [[]]"
| "split_on c (x # xs) =
     (if x = c then [] # split_on c xs
      else case split_on c xs of [] \<Rightarrow> [[x]] | p # ps \<Rightarrow> (x # p) # ps)"

definition hex_value :: "char \<Rightarrow> nat option" where
  "hex_value c =
     map_of (zip ''0123456789abcdefABCDEF''
        [0, 1, 2, 3, 4, 5, 6, 7, 8, 9, 10, 11, 12, 13, 14, 15, 10, 11, 12, 13, 14, 15]) c"

fun percent_decode :: "string \<Rightarrow> string" where
  "percent_decode (p # a # b # rest) =
     (case (if p = CHR ''%'' then hex_value a else None, hex_value b) of
        (Some x, Some y) \<Rightarrow> char_of (16 * x + y) # percent_decode rest
      | _ \<Rightarrow> p # percent_decode (a # b # rest))"
| "percent_decode s = s"

definition form_decode :: "string \<Rightarrow> string" where
  "form_decode s = percent_decode (map (\<lambda>c. if c = CHR ''+'' then CHR '' '' else c) s)"

definition parse_query :: "string \<Rightarrow> (string \<times> string) list" where
  "parse_query q =
     map (\<lambda>piece. (form_decode (before CHR ''='' piece),
                    form_decode (case after CHR ''='' piece of None \<Rightarrow> [] | Some v \<Rightarrow> v)))
       (filter (\<lambda>piece. piece \<noteq> []) (split_on CHR ''&'' q))"

definition simple_URL :: "string \<Rightarrow> url option" where
  "simple_URL input =
     (let scheme = before CHR '':'' input in
      case after CHR '':'' input of
        None \<Rightarrow> None
      | Some rest \<Rightarrow>
          if scheme = [] \<or> \<not> is_alpha (hd scheme) \<or> \<not> list_all is_scheme_char scheme
          then None
          else
            let no_fragment = before CHR ''#'' rest;
                hier = before CHR ''?'' no_fragment;
                query = (case after CHR ''?'' no_fragment of None \<Rightarrow> [] | Some q \<Rightarrow> q)
            in if toLowerCase scheme \<in> set [''http'', ''https'']
               then
                 let authority_path = dropWhile (\<lambda>c. c = CHR ''/'') hier;
                     authority = before CHR ''/'' authority_path;
                     path = (case after CHR ''/'' authority_path of
                               None \<Rightarrow> [] | Some p \<Rightarrow> p)
                 in if authority = [] then None
                    else Some \<lparr>pathname = CHR ''/'' # path, searchParams = parse_query query\<rparr>
               else Some \<lparr>pathname = hier, searchParams = parse_query query\<rparr>)"

section \<open>Configuration\<close>

definition REDIRECT_PORT :: string where
  "REDIRECT_PORT = ''51122''"

definition REDIRECT_URI :: string where
  "REDIRECT_URI = ''http://localhost:'' @ REDIRECT_PORT @ ''/oauth-callback''"

definition AUTH_URL :: string where
  "AUTH_URL = ''https://accounts.google.com/o/oauth2/v2/auth''"

definition TOKEN_URL :: string where
  "TOKEN_URL = ''https://oauth2.googleapis.com/token''"

definition USERINFO_URL :: string where
  "USERINFO_URL = ''https://www.googleapis.com/oauth2/v1/userinfo?alt=json''"

definition SCOPES :: "string list" where
  "SCOPES =
     [''https://www.googleapis.com/auth/gmail.readonly'',
      ''https://www.googleapis.com/auth/calendar.readonly'',
      ''https://www.googleapis.com/auth/userinfo.email'',
      ''https://www.googleapis.com/auth/userinfo.profile'']"

definition credentials_not_configured :: string where
  "credentials_not_configured =
     ''Google OAuth credentials not configured.\<newline>\<newline>'' @
     ''To use Gmail/Calendar integration:\<newline>'' @
     ''1. Go to https://console.cloud.google.com/\<newline>'' @
     ''2. Create a project and enable Gmail API + Calendar API\<newline>'' @
     ''3. Create OAuth 2.0 credentials (Desktop app type)\<newline>'' @
     ''4. Set environment variables:\<newline>'' @
     ''   export GOOGLE_CLIENT_ID='your-client-id'\<newline>'' @
     ''   export GOOGLE_CLIENT_SECRET='your-client-secret'\<newline>''"

definition getGoogleCredentials :: "host \<Rightarrow> js_error + (string \<times> string)" where
  "getGoogleCredentials h =
     (let clientId = env h ''GOOGLE_CLIENT_ID'';
          clientSecret = env h ''GOOGLE_CLIENT_SECRET''
      in if \<not> truthy clientId \<or> \<not> truthy clientSecret
         then Inl (Error credentials_not_configured)
         else Inr (the clientId, the clientSecret))"

text \<open>The URL that \<open>buildAuthUrl\<close> assembles once the client id is known.\<close>

definition authorization_url :: "string \<Rightarrow> string \<Rightarrow> string \<Rightarrow> string" where
  "authorization_url clientId challenge state =
     AUTH_URL @ ''?'' @ URLSearchParams_toString
       [(''client_id'', clientId),
        (''response_type'', ''code''),
        (''redirect_uri'', REDIRECT_URI),
        (''scope'', join '' '' SCOPES),
        (''code_challenge'', challenge),
        (''code_challenge_method'', ''S256''),
        (''state'', state),
        (''access_type'', ''offline''),
        (''prompt'', ''consent'')]"


definition buildAuthUrl :: "host \<Rightarrow> string \<Rightarrow> string \<Rightarrow> js_error + string" where
  "buildAuthUrl h challenge state =
     (case getGoogleCredentials h of
        Inl e \<Rightarrow> Inl e
      | Inr (clientId, clientSecret) \<Rightarrow> Inr (authorization_url clientId challenge state))"

section \<open>The world the flow acts on\<close>

record http_request =
  request_url :: string
  http_verb :: string
  headers :: "(string \<times> string) list"
  form :: "(string \<times> string) list"

text \<open>
  A \<open>fetch\<close> response: \<open>response.ok\<close>, \<open>response.text()\<close>, and \<open>response.json()\<close> read at the
  type the code casts it to (\<open>Inl\<close> when the body is not JSON and \<open>json()\<close> throws).
\<close>

record 'a http_response =
  ok :: bool
  body_text :: string
  body_json :: "js_error + 'a"

record token_data =
  access_token :: string
  refresh_token :: "string option"
  expires_in :: int

text \<open>
  What the flow changes: the random bytes it has drawn, whether its callback server holds
  the port, the URLs handed to the caller's sink, the progress messages, the requests sent
  with \<open>fetch\<close>, and the replies the callback server wrote.
\<close>

record world =
  entropy :: "nat \<Rightarrow> byte"
  drawn :: nat
  listening :: bool
  sink_urls :: "string list"
  progress_log :: "string list"
  fetch_log :: "http_request list"
  replies :: "(nat \<times> string) list"

text \<open>
  What the flow is given: the host, the platform's SHA-256 and URL parser, the value
  \<open>Date.now()\<close> returns (each run reads the clock at most once), the error of the
  \<open>listen\<close> call if it fails, the requests that reach the callback server, whether the
  caller's sink throws, the line the operator types (\<open>None\<close> when none ever comes), and the
  answers of the token and user-info endpoints (\<open>Inl\<close> when \<open>fetch\<close> itself throws).
\<close>

record scenario =
  the_host :: host
  sha256 :: "string \<Rightarrow> byte list"
  new_URL :: "string \<Rightarrow> url option"
  now :: int
  listen_error :: "string option"
  incoming :: "url list"
  onUrl_throws :: "string \<Rightarrow> js_error option"
  operator_line :: "string option"
  token_endpoint :: "http_request \<Rightarrow> js_error + token_data http_response"
  userinfo_endpoint :: "http_request \<Rightarrow> js_error + (string option) http_response"

definition randomBytes :: "nat \<Rightarrow> world \<Rightarrow> byte list \<times> world" where
  "randomBytes n w =
     (map (entropy w) [drawn w ..< drawn w + n], w\<lparr>drawn := drawn w + n\<rparr>)"

definition onUrl :: "scenario \<Rightarrow> string \<Rightarrow> world \<Rightarrow> js_error option \<times> world" where
  "onUrl sc u w = (onUrl_throws sc u, w\<lparr>sink_urls := sink_urls w @ [u]\<rparr>)"

definition onProgress :: "string \<Rightarrow> world \<Rightarrow> world" where
  "onProgress message w = w\<lparr>progress_log := progress_log w @ [message]\<rparr>"

definition fetch ::
  "(http_request \<Rightarrow> js_error + 'a http_response) \<Rightarrow> http_request \<Rightarrow> world
     \<Rightarrow> (js_error + 'a http_response) \<times> world" where
  "fetch endpoint req w = (endpoint req, w\<lparr>fetch_log := fetch_log w @ [req]\<rparr>)"


section \<open>PKCE\<close>

text \<open>The result is the pair \<open>{verifier, challenge}\<close>.\<close>

definition generatePKCE :: "(string \<Rightarrow> byte list) \<Rightarrow> world \<Rightarrow> (string \<times> string) \<times> world" where
  "generatePKCE hash w =
     (case randomBytes 32 w of
        (bytes, w') \<Rightarrow>
          (let verifier = toString_hex bytes;
               challenge = base64url (hash verifier)
           in ((verifier, challenge), w')))"

section \<open>Parsing what the operator pastes\<close>

datatype parsed = CodeState string string | ParseError string

definition parseCallbackInput ::
  "(string \<Rightarrow> url option) \<Rightarrow> string \<Rightarrow> string \<Rightarrow> parsed" where
  "parseCallbackInput URL input expectedState =
     (let trimmed = trim input in
      if trimmed = [] then ParseError ''No input provided''
      else case URL trimmed of
        Some u \<Rightarrow>
          (let code = searchParams_get u ''code'';
               state = (case searchParams_get u ''state'' of
                          Some s \<Rightarrow> s | None \<Rightarrow> expectedState)
           in if \<not> truthy code then ParseError ''Missing 'code' parameter in URL''
              else if state = [] then ParseError ''Missing 'state' parameter. Paste the full URL.''
              else CodeState (the code) state)
      | None \<Rightarrow>
          if expectedState = []
          then ParseError ''Paste the full redirect URL, not just the code.''
          else CodeState trimmed expectedState)"

section \<open>Token exchange and refresh\<close>

record access_info =
  access :: string
  expires :: int

record credentials = access_info +
  refresh :: string
  email :: "string option"

text \<open>The requests handed to \<open>fetch\<close>: the URL and the options object of each call.\<close>

definition userinfo_request :: "string \<Rightarrow> http_request" where
  "userinfo_request accessToken =
     \<lparr>request_url = USERINFO_URL, http_verb = ''GET'',
      headers = [(''Authorization'', ''Bearer '' @ accessToken)], form = []\<rparr>"

definition exchange_request :: "string \<Rightarrow> string \<Rightarrow> string \<Rightarrow> string \<Rightarrow> http_request" where
  "exchange_request clientId clientSecret code verifier =
     \<lparr>request_url = TOKEN_URL, http_verb = ''POST'',
      headers = [(''Content-Type'', ''application/x-www-form-urlencoded'')],
      form = [(''client_id'', clientId),
              (''client_secret'', clientSecret),
              (''code'', code),
              (''grant_type'', ''authorization_code''),
              (''redirect_uri'', REDIRECT_URI),
              (''code_verifier'', verifier)]\<rparr>"

definition refresh_request :: "string \<Rightarrow> string \<Rightarrow> string \<Rightarrow> http_request" where
  "refresh_request clientId clientSecret refreshToken =
     \<lparr>request_url = TOKEN_URL, http_verb = ''POST'',
      headers = [(''Content-Type'', ''application/x-www-form-urlencoded'')],
      form = [(''client_id'', clientId),
              (''client_secret'', clientSecret),
              (''refresh_token'', refreshToken),
              (''grant_type'', ''refresh_token'')]\<rparr>"

definition getUserEmail :: "scenario \<Rightarrow> string \<Rightarrow> world \<Rightarrow> string option \<times> world" where
  "getUserEmail sc accessToken w =
     (case fetch (userinfo_endpoint sc) (userinfo_request accessToken) w of
        (Inl thrown, w') \<Rightarrow> (None, w')
      | (Inr response, w') \<Rightarrow>
          if ok response
          then (case body_json response of
                  Inl thrown \<Rightarrow> (None, w')
                | Inr data_email \<Rightarrow> (data_email, w'))
          else (None, w'))"

definition no_refresh_token :: string where
  "no_refresh_token =
     ''No refresh token received. You may need to revoke access at '' @
     ''https://myaccount.google.com/permissions and try again.''"

definition exchangeCodeForTokens ::
  "scenario \<Rightarrow> string \<Rightarrow> string \<Rightarrow> world \<Rightarrow> (js_error + credentials) \<times> world" where
  "exchangeCodeForTokens sc code verifier w =
     (case getGoogleCredentials (the_host sc) of
        Inl e \<Rightarrow> (Inl e, w)
      | Inr (clientId, clientSecret) \<Rightarrow>
          (case fetch (token_endpoint sc)
                  (exchange_request clientId clientSecret code verifier) w of
             (Inl thrown, w1) \<Rightarrow> (Inl thrown, w1)
           | (Inr response, w1) \<Rightarrow>
               if \<not> ok response
               then (Inl (Error (''Token exchange failed: '' @ body_text response)), w1)
               else (case body_json response of
                       Inl thrown \<Rightarrow> (Inl thrown, w1)
                     | Inr data \<Rightarrow>
                         if \<not> truthy (refresh_token data)
                         then (Inl (Error no_refresh_token), w1)
                         else (case getUserEmail sc (access_token data) w1 of
                                 (user_email, w2) \<Rightarrow>
                                   (let expiresAt = now sc + expires_in data * 1000 - 5 * 60 * 1000
                                    in (Inr \<lparr>access = access_token data,
                                             expires = expiresAt,
                                             refresh = the (refresh_token data),
                                             email = user_email\<rparr>, w2))))))"

definition refreshGoogleToken ::
  "scenario \<Rightarrow> string \<Rightarrow> world \<Rightarrow> (js_error + access_info) \<times> world" where
  "refreshGoogleToken sc refreshToken w =
     (case getGoogleCredentials (the_host sc) of
        Inl e \<Rightarrow> (Inl e, w)
      | Inr (clientId, clientSecret) \<Rightarrow>
          (case fetch (token_endpoint sc) (refresh_request clientId clientSecret refreshToken) w of
             (Inl thrown, w1) \<Rightarrow> (Inl thrown, w1)
           | (Inr response, w1) \<Rightarrow>
               if \<not> ok response
               then (Inl (Error (''Token refresh failed: '' @ body_text response)), w1)
               else (case body_json response of
                       Inl thrown \<Rightarrow> (Inl thrown, w1)
                     | Inr data \<Rightarrow>
                         (let expiresAt = now sc + expires_in data * 1000 - 5 * 60 * 1000
                          in (Inr \<lparr>access = access_token data, expires = expiresAt\<rparr>, w1)))))"

text \<open>
  Modelled from the spec: the collaborator that stores a credential and amends it with the
  result of a refresh is not in the sources.  The specification has it replace \<open>access\<close>
  and \<open>expires\<close> and carry the other fields over.
\<close>

definition amend_credential :: "credentials \<Rightarrow> access_info \<Rightarrow> credentials" where
  "amend_credential stored refreshed =
     stored\<lparr>access := access refreshed, expires := expires refreshed\<rparr>"

section \<open>The local callback server\<close>

text \<open>
  A promise is pending, resolved with a value, or rejected with an error.  The promise
  returned by \<open>startCallbackServer\<close> is the computation that runs when it is awaited: the
  requests reaching the server are handled in order until one settles it, and it stays
  pending when none does.  It resolves with \<open>{code, close}\<close>, a pair of the code and the
  action \<open>() => server.close()\<close>.
\<close>

datatype 'a settlement = Pending | Resolved 'a | Rejected js_error

type_synonym callback = "string \<times> (world \<Rightarrow> world)"

definition success_page :: string where
  "success_page =
     ''\<newline>        <html>\<newline>'' @
     ''          <body style=\"font-family: system-ui; text-align: center; padding: 50px;\">\<newline>'' @
     ''            <h1>Success!</h1>\<newline>'' @
     ''            <p>Google Workspace connected. You can close this window.</p>\<newline>'' @
     ''          </body>\<newline>'' @
     ''        </html>\<newline>      ''"

definition respond :: "nat \<Rightarrow> string \<Rightarrow> world \<Rightarrow> world" where
  "respond status body w = w\<lparr>replies := replies w @ [(status, body)]\<rparr>"

definition server_close :: "world \<Rightarrow> world" where
  "server_close w = w\<lparr>listening := False\<rparr>"

definition request_listener :: "string \<Rightarrow> url \<Rightarrow> world \<Rightarrow> callback settlement \<times> world" where
  "request_listener expectedState u w =
     (if pathname u \<noteq> ''/oauth-callback'' then (Pending, respond 404 ''Not found'' w)
      else
        let code = searchParams_get u ''code'';
            state = searchParams_get u ''state'';
            error = searchParams_get u ''error''
        in if truthy error
           then (Rejected (Error (''OAuth error: '' @ the error)),
                 server_close (respond 400 (''OAuth error: '' @ the error) w))
           else if \<not> truthy code
           then (Rejected (Error ''Missing authorization code''),
                 server_close (respond 400 ''Missing authorization code'' w))
           else if state \<noteq> Some expectedState
           then (Rejected (Error ''OAuth state mismatch''),
                 server_close (respond 400 ''State mismatch'' w))
           else (Resolved (the code, server_close), respond 200 success_page w))"

fun serve :: "string \<Rightarrow> url list \<Rightarrow> world \<Rightarrow> callback settlement \<times> world" where
  "serve expectedState [] w = (Pending, w)"
| "serve expectedState (u # us) w =
     (case request_listener expectedState u w of
        (Pending, w') \<Rightarrow> serve expectedState us w'
      | (Resolved r, w') \<Rightarrow> (Resolved r, w')
      | (Rejected e, w') \<Rightarrow> (Rejected e, w'))"

definition startCallbackServer ::
  "scenario \<Rightarrow> string \<Rightarrow> world \<Rightarrow> (world \<Rightarrow> callback settlement \<times> world) \<times> world" where
  "startCallbackServer sc expectedState w =
     (case listen_error sc of
        Some message \<Rightarrow> (\<lambda>w'. (Rejected (Error message), w'), w)
      | None \<Rightarrow> (\<lambda>w'. serve expectedState (incoming sc) w', w\<lparr>listening := True\<rparr>))"

text \<open>
  The settlement of the server's promise, and the world at that moment, when the promise is
  awaited right after the server is started.
\<close>

definition await_server :: "scenario \<Rightarrow> string \<Rightarrow> world \<Rightarrow> callback settlement \<times> world" where
  "await_server sc expectedState w =
     (case startCallbackServer sc expectedState w of (serverPromise, w1) \<Rightarrow> serverPromise w1)"

section \<open>The login flows\<close>

text \<open>
  A login returns \<open>None\<close> when its promise never settles (no request reaches the callback
  path, or the operator never answers), \<open>Some (Inl e)\<close> when it throws \<open>e\<close>, and
  \<open>Some (Inr c)\<close> when it returns the credentials \<open>c\<close>.  The optional progress callback is
  taken as given, so that every message the flow would report is recorded; the instructions
  printed with \<open>console.log\<close> are left out.
\<close>

definition loginGoogleWorkspaceLocal ::
  "scenario \<Rightarrow> world \<Rightarrow> (js_error + credentials) option \<times> world" where
  "loginGoogleWorkspaceLocal sc w =
     (case generatePKCE (sha256 sc) w of
        ((verifier, challenge), w1) \<Rightarrow>
     (case randomBytes 16 w1 of
        (state_bytes, w2) \<Rightarrow>
     (let state = toString_hex state_bytes in
      case buildAuthUrl (the_host sc) challenge state of
        Inl e \<Rightarrow> (Some (Inl e), w2)
      | Inr authUrl \<Rightarrow>
     (case startCallbackServer sc state w2 of
        (serverPromise, w3) \<Rightarrow>
     (case onUrl sc authUrl w3 of
        (Some e, w4) \<Rightarrow> (Some (Inl e), w4)
      | (None, w4) \<Rightarrow>
     (case serverPromise (onProgress ''Waiting for authorization in browser...'' w4) of
        (Pending, w5) \<Rightarrow> (None, w5)
      | (Rejected e, w5) \<Rightarrow> (Some (Inl e), w5)
      | (Resolved (code, close), w5) \<Rightarrow>
     (case exchangeCodeForTokens sc code verifier
             (onProgress ''Exchanging authorization code for tokens...'' (close w5)) of
        (result, w6) \<Rightarrow> (Some result, w6))))))))"

definition promptInput :: "scenario \<Rightarrow> string option" where
  "promptInput sc = map_option trim (operator_line sc)"

definition loginGoogleWorkspaceManual ::
  "scenario \<Rightarrow> world \<Rightarrow> (js_error + credentials) option \<times> world" where
  "loginGoogleWorkspaceManual sc w =
     (case generatePKCE (sha256 sc) w of
        ((verifier, challenge), w1) \<Rightarrow>
     (case randomBytes 16 w1 of
        (state_bytes, w2) \<Rightarrow>
     (let state = toString_hex state_bytes in
      case buildAuthUrl (the_host sc) challenge state of
        Inl e \<Rightarrow> (Some (Inl e), w2)
      | Inr authUrl \<Rightarrow>
     (case onUrl sc authUrl w2 of
        (Some e, w3) \<Rightarrow> (Some (Inl e), w3)
      | (None, w3) \<Rightarrow>
     (let w4 = onProgress ''Waiting for you to paste the callback URL...'' w3 in
      case promptInput sc of
        None \<Rightarrow> (None, w4)
      | Some callbackInput \<Rightarrow>
     (case parseCallbackInput (new_URL sc) callbackInput state of
        ParseError message \<Rightarrow> (Some (Inl (Error message)), w4)
      | CodeState parsed_code parsed_state \<Rightarrow>
          if parsed_state \<noteq> state
          then (Some (Inl (Error ''OAuth state mismatch - please try again'')), w4)
          else
     (case exchangeCodeForTokens sc parsed_code verifier
             (onProgress ''Exchanging authorization code for tokens...'' w4) of
        (result, w5) \<Rightarrow> (Some result, w5))))))))"

text \<open>The test of the \<open>catch\<close> block that decides whether the manual flow is tried.\<close>

definition fallback_condition :: "js_error \<Rightarrow> bool" where
  "fallback_condition err =
     (case err of
        Error message \<Rightarrow>
          js_includes message ''EADDRINUSE'' \<or> js_includes message ''port''
          \<or> js_includes message ''listen''
      | NonError v \<Rightarrow> False)"

definition loginGoogleWorkspace ::
  "scenario \<Rightarrow> world \<Rightarrow> (js_error + credentials) option \<times> world" where
  "loginGoogleWorkspace sc w =
     (if shouldUseManualOAuthFlow (the_host sc) then loginGoogleWorkspaceManual sc w
      else case loginGoogleWorkspaceLocal sc w of
             (Some (Inl err), w1) \<Rightarrow>
               if fallback_condition err
               then loginGoogleWorkspaceManual sc
                      (onProgress ''Local callback server failed. Switching to manual mode...'' w1)
               else (Some (Inl err), w1)
           | (outcome, w1) \<Rightarrow> (outcome, w1))"

section \<open>Choosing the account in the mail and calendar tools\<close>

text \<open>
  \<open>resolveGoogleAccessToken\<close> is the same function in both tools; it is written here in
  three parts: the guard, the choice of the profile id, and the lookup of its key.  The
  profile ids that
  \<open>listProfilesForProvider\<close> returns for the provider \<open>google-workspace\<close> and the
  function \<open>resolveApiKeyForProfile\<close> (\<open>Inr None\<close> when it resolves nothing, \<open>Inl\<close> when it
  throws) come from the profile store and are parameters here.
\<close>

definition choose_profile :: "string list \<Rightarrow> string option \<Rightarrow> js_error + string" where
  "choose_profile profiles account =
     (if truthy account
      then (case find (\<lambda>p. js_includes p (the account)) profiles of
              None \<Rightarrow>
                Inl (Error (''Google account not found: '' @ the account
                            @ ''. Available: '' @ join '', '' profiles))
            | Some match \<Rightarrow> Inr match)
      else Inr (profiles ! 0))"

definition resolve_profile ::
  "(string \<Rightarrow> js_error + string option) \<Rightarrow> string \<Rightarrow> js_error + string" where
  "resolve_profile resolveApiKeyForProfile profileId =
     (case resolveApiKeyForProfile profileId of
        Inl thrown \<Rightarrow> Inl thrown
      | Inr None \<Rightarrow>
          Inl (Error (''Failed to resolve Google credentials for '' @ profileId
                      @ ''. Try: clawdbot google login''))
      | Inr (Some apiKey) \<Rightarrow> Inr apiKey)"

definition resolveGoogleAccessToken ::
  "string list \<Rightarrow> (string \<Rightarrow> js_error + string option) \<Rightarrow> string option
     \<Rightarrow> js_error + string" where
  "resolveGoogleAccessToken profiles resolveApiKeyForProfile account =
     (if length profiles = 0
      then Inl (Error ''No Google Workspace account configured. Run: clawdbot google login'')
      else case choose_profile profiles account of
             Inl e \<Rightarrow> Inl e
           | Inr profileId \<Rightarrow> resolve_profile resolveApiKeyForProfile profileId)"

section \<open>Concrete hosts and scenarios\<close>

text \<open>
  Four hosts: an SSH session with a display, a Linux host without display, a second
  generation compatibility layer with a display, and a desktop with a display.
\<close>

definition ssh_host :: host where
  "ssh_host = \<lparr>platform = ''darwin'',
      env = (\<lambda>k. if k = ''SSH_CLIENT'' then Some ''10.0.0.7 50022 22''
                  else if k = ''DISPLAY'' then Some '':0'' else None),
      proc_version = None\<rparr>"

definition headless_host :: host where
  "headless_host = \<lparr>platform = ''linux'', env = (\<lambda>k. None),
      proc_version = Some ''Linux version 6.1.0-18-amd64 (gcc-12)''\<rparr>"

definition wsl2_host :: host where
  "wsl2_host = \<lparr>platform = ''linux'',
      env = (\<lambda>k. if k = ''DISPLAY'' then Some '':0'' else None),
      proc_version = Some ''Linux version 5.15.90.1-microsoft-standard-WSL2''\<rparr>"

definition desktop_host :: host where
  "desktop_host = \<lparr>platform = ''linux'',
      env = (\<lambda>k. if k = ''DISPLAY'' then Some '':0'' else None),
      proc_version = Some ''Linux version 6.1.0-18-amd64 (gcc-12)''\<rparr>"

text \<open>
  A desktop with the client credentials configured, a world in which nothing has happened
  yet, and three answers of the token endpoint: a success with a refresh token, a success
  without one, and a refusal.
\<close>

definition configured_desktop :: host where
  "configured_desktop = \<lparr>platform = ''darwin'',
      env = (\<lambda>k. if k = ''GOOGLE_CLIENT_ID'' then Some ''id''
                  else if k = ''GOOGLE_CLIENT_SECRET'' then Some ''secret'' else None),
      proc_version = None\<rparr>"

definition fresh_world :: world where
  "fresh_world = \<lparr>entropy = (\<lambda>n. of_nat n), drawn = 0, listening = False, sink_urls = [],
      progress_log = [], fetch_log = [], replies = []\<rparr>"

definition granted :: "token_data http_response" where
  "granted = \<lparr>ok = True, body_text = ''{...}'',
      body_json = Inr \<lparr>access_token = ''at'', refresh_token = Some ''rt'', expires_in = 3599\<rparr>\<rparr>"

definition granted_without_refresh :: "token_data http_response" where
  "granted_without_refresh = \<lparr>ok = True, body_text = ''{...}'',
      body_json = Inr \<lparr>access_token = ''at'', refresh_token = None, expires_in = 3599\<rparr>\<rparr>"

definition refused :: "token_data http_response" where
  "refused = \<lparr>ok = False, body_text = ''{\"error\": \"invalid_grant\"}'',
      body_json = Inr \<lparr>access_token = [], refresh_token = None, expires_in = 0\<rparr>\<rparr>"

text \<open>
  A run on that desktop: the token endpoint answers with the given response, the user-info
  lookup throws, the listener binds, and the given requests reach it.
\<close>

definition desktop_run :: "token_data http_response \<Rightarrow> url list \<Rightarrow> scenario" where
  "desktop_run response requests =
     \<lparr>the_host = configured_desktop,
      sha256 = (\<lambda>s. map (\<lambda>c. of_nat (of_char c)) (take 32 s)),
      new_URL = simple_URL,
      now = 1700000000000,
      listen_error = None,
      incoming = requests,
      onUrl_throws = (\<lambda>u. None),
      operator_line = None,
      token_endpoint = (\<lambda>req. Inr response),
      userinfo_endpoint = (\<lambda>req. Inl (Error ''fetch failed''))\<rparr>"

text \<open>
  Requests to the callback path, and three runs: one in which the provider redirects with the
  code, one in which it redirects with the error \<open>unsupported_response_type\<close>, and one in
  which the port is taken.
\<close>

definition callback_request :: "(string \<times> string) list \<Rightarrow> url" where
  "callback_request params = \<lparr>pathname = ''/oauth-callback'', searchParams = params\<rparr>"

definition consent_run :: scenario where
  "consent_run = desktop_run granted [callback_request [(''code'', ''abc''), (''state'', ''S'')]]"

definition denied_run :: scenario where
  "denied_run = desktop_run granted [callback_request [(''error'', ''unsupported_response_type'')]]"



section \<open>Facts about strings\<close>

lemma js_includes_iff: "js_includes hay needle \<longleftrightarrow> (\<exists>p s. hay = p @ needle @ s)"
proof (induction hay)
  case Nil
  then show ?case by auto
next
  case (Cons c cs)
  show ?case
  proof
    assume "js_includes (c # cs) needle"
    then consider "prefix needle (c # cs)" | "js_includes cs needle" by auto
    then show "\<exists>p s. c # cs = p @ needle @ s"
    proof cases
      case 1
      then obtain s where "c # cs = needle @ s" by (auto simp: prefix_def)
      then have "c # cs = [] @ needle @ s" by simp
      then show ?thesis by blast
    next
      case 2
      with Cons.IH obtain p s where "cs = p @ needle @ s" by blast
      then have "c # cs = (c # p) @ needle @ s" by simp
      then show ?thesis by blast
    qed
  next
    assume "\<exists>p s. c # cs = p @ needle @ s"
    then obtain p s where eq: "c # cs = p @ needle @ s" by blast
    show "js_includes (c # cs) needle"
    proof (cases p)
      case Nil
      with eq have "prefix needle (c # cs)" by (simp add: prefix_def)
      then show ?thesis by simp
    next
      case (Cons a p')
      with eq have "cs = p' @ needle @ s" by simp
      with Cons.IH have "js_includes cs needle" by blast
      then show ?thesis by simp
    qed
  qed
qed

lemma js_includes_trans:
  assumes "js_includes hay mid" and "js_includes mid needle"
  shows "js_includes hay needle"
proof -
  from assms(1) obtain p s where "hay = p @ mid @ s" by (auto simp: js_includes_iff)
  moreover from assms(2) obtain p' s' where "mid = p' @ needle @ s'"
    by (auto simp: js_includes_iff)
  ultimately have "hay = (p @ p') @ needle @ (s' @ s)" by simp
  then show ?thesis unfolding js_includes_iff by blast
qed

lemma microsoft_in_standard: "js_includes ''microsoft-standard'' ''microsoft''"
  by (simp add: js_includes_iff) (rule exI[of _ "[]"], simp)

lemma wsl_in_wsl2: "js_includes ''wsl2'' ''wsl''"
  by (simp add: js_includes_iff) (rule exI[of _ "[]"], simp)

section \<open>The probe's decision\<close>

lemma isWSL_eq: "isWSL h = isLinuxCompatLayer h"
  by (auto simp: isWSL_def isLinuxCompatLayer_def kernel_version_has_def Let_def
      split: option.splits)

lemma gen2_is_compat_layer: "isLinuxCompatLayerGen2 h \<Longrightarrow> isLinuxCompatLayer h"
  unfolding isLinuxCompatLayerGen2_def isLinuxCompatLayer_def kernel_version_has_def
  by (auto split: option.splits
      intro: js_includes_trans[OF _ microsoft_in_standard] js_includes_trans[OF _ wsl_in_wsl2])

lemma isWSL2_eq: "isWSL2 h = isLinuxCompatLayerGen2 h"
proof (cases "isLinuxCompatLayerGen2 h")
  case True
  then have "isWSL h" using gen2_is_compat_layer isWSL_eq by blast
  with True show ?thesis
    by (auto simp: isWSL2_def isLinuxCompatLayerGen2_def kernel_version_has_def Let_def
        split: option.splits)
next
  case False
  then show ?thesis
    by (auto simp: isWSL2_def isWSL_def isLinuxCompatLayerGen2_def kernel_version_has_def
        Let_def split: option.splits)
qed

lemma isRemoteEnvironment_eq: "isRemoteEnvironment h = (isContainerish h \<or> isHeadlessLinux h)"
  by (auto simp: isRemoteEnvironment_def isContainerish_def isHeadlessLinux_def isWSL_eq)

text \<open>
  Claim C4.  The probe's manual-mode decision is
  \<open>isContainerish() OR isHeadlessLinux() OR isLinuxCompatLayerGen2()\<close>, a function of the
  platform, the environment and the contents of the kernel-version file only.  Hence it is
  true whenever one of the SSH, container or cloud-IDE markers has a non-empty value,
  whatever the display variables are; true on Linux with neither \<open>DISPLAY\<close> nor
  \<open>WAYLAND_DISPLAY\<close> set when the kernel version does not name the Windows compatibility
  layer; true when the kernel version names the second generation of that layer; and false
  when none of the three signals is present.  Off Linux the kernel-version file is not
  consulted.
\<close>

theorem probe_decision:
  "shouldUseManualOAuthFlow h
     = (isContainerish h \<or> isHeadlessLinux h \<or> isLinuxCompatLayerGen2 h)
   \<and> (\<forall>k \<in> set [''SSH_CLIENT'', ''SSH_TTY'', ''SSH_CONNECTION'', ''REMOTE_CONTAINERS'',
                  ''CODESPACES''].
        truthy (env h k) \<longrightarrow> shouldUseManualOAuthFlow h)
   \<and> (platform h = ''linux'' \<and> \<not> truthy (env h ''DISPLAY'')
        \<and> \<not> truthy (env h ''WAYLAND_DISPLAY'') \<and> \<not> isLinuxCompatLayer h
        \<longrightarrow> shouldUseManualOAuthFlow h)
   \<and> (isLinuxCompatLayerGen2 h \<longrightarrow> shouldUseManualOAuthFlow h)
   \<and> (\<not> isContainerish h \<and> \<not> isHeadlessLinux h \<and> \<not> isLinuxCompatLayerGen2 h
        \<longrightarrow> \<not> shouldUseManualOAuthFlow h)
   \<and> (platform h \<noteq> ''linux''
        \<longrightarrow> shouldUseManualOAuthFlow (h\<lparr>proc_version := v\<rparr>) = shouldUseManualOAuthFlow h)"
proof -
  have main: "shouldUseManualOAuthFlow h
      = (isContainerish h \<or> isHeadlessLinux h \<or> isLinuxCompatLayerGen2 h)"
    unfolding shouldUseManualOAuthFlow_def isWSL2_eq isRemoteEnvironment_eq by blast
  have markers: "\<forall>k \<in> set [''SSH_CLIENT'', ''SSH_TTY'', ''SSH_CONNECTION'',
      ''REMOTE_CONTAINERS'', ''CODESPACES'']. truthy (env h k) \<longrightarrow> isContainerish h"
    unfolding isContainerish_def list_ex_iff by blast
  have headless: "platform h = ''linux'' \<and> \<not> truthy (env h ''DISPLAY'')
      \<and> \<not> truthy (env h ''WAYLAND_DISPLAY'') \<and> \<not> isLinuxCompatLayer h \<longrightarrow> isHeadlessLinux h"
    by (simp add: isHeadlessLinux_def)
  have off_linux: "platform h \<noteq> ''linux''
      \<longrightarrow> shouldUseManualOAuthFlow (h\<lparr>proc_version := v\<rparr>) = shouldUseManualOAuthFlow h"
    by (simp add: shouldUseManualOAuthFlow_def isWSL2_def isWSL_def isRemoteEnvironment_def)
  from main markers headless off_linux show ?thesis by blast
qed

lemma lower_linux [simp]:
  "toLowerCase ''Linux version 6.1.0-18-amd64 (gcc-12)'' = ''linux version 6.1.0-18-amd64 (gcc-12)''"
  by (simp add: toLowerCase_def toLowerCase_char_def lower_table_def)

lemma lower_wsl2 [simp]:
  "toLowerCase ''Linux version 5.15.90.1-microsoft-standard-WSL2''
     = ''linux version 5.15.90.1-microsoft-standard-wsl2''"
  by (simp add: toLowerCase_def toLowerCase_char_def lower_table_def)

theorem probe_decision_witness:
  "truthy (env ssh_host ''SSH_CLIENT'') \<and> truthy (env ssh_host ''DISPLAY'')
     \<and> shouldUseManualOAuthFlow ssh_host
   \<and> platform headless_host = ''linux'' \<and> \<not> truthy (env headless_host ''DISPLAY'')
     \<and> \<not> truthy (env headless_host ''WAYLAND_DISPLAY'') \<and> \<not> isLinuxCompatLayer headless_host
     \<and> shouldUseManualOAuthFlow headless_host
   \<and> isLinuxCompatLayerGen2 wsl2_host \<and> shouldUseManualOAuthFlow wsl2_host
   \<and> \<not> isContainerish desktop_host \<and> \<not> isHeadlessLinux desktop_host
     \<and> \<not> isLinuxCompatLayerGen2 desktop_host \<and> \<not> shouldUseManualOAuthFlow desktop_host"
proof -
  have a: "truthy (env ssh_host ''SSH_CLIENT'')" "truthy (env ssh_host ''DISPLAY'')"
    by (simp_all add: ssh_host_def)
  have b: "platform headless_host = ''linux''" "\<not> truthy (env headless_host ''DISPLAY'')"
    "\<not> truthy (env headless_host ''WAYLAND_DISPLAY'')" "\<not> isLinuxCompatLayer headless_host"
    by (simp_all add: headless_host_def isLinuxCompatLayer_def kernel_version_has_def)
  have c: "isLinuxCompatLayerGen2 wsl2_host"
    by (simp add: wsl2_host_def isLinuxCompatLayerGen2_def kernel_version_has_def)
  have d: "\<not> isContainerish desktop_host" "\<not> isHeadlessLinux desktop_host"
    "\<not> isLinuxCompatLayerGen2 desktop_host"
    by (simp_all add: desktop_host_def isContainerish_def isHeadlessLinux_def
        isLinuxCompatLayerGen2_def kernel_version_has_def)
  have "\<forall>k \<in> set [''SSH_CLIENT'', ''SSH_TTY'', ''SSH_CONNECTION'', ''REMOTE_CONTAINERS'',
      ''CODESPACES'']. truthy (env ssh_host k) \<longrightarrow> shouldUseManualOAuthFlow ssh_host"
    using probe_decision[where h = ssh_host and v = None] by blast
  with a have "shouldUseManualOAuthFlow ssh_host" by simp
  moreover from b probe_decision[where h = headless_host and v = None] have "shouldUseManualOAuthFlow headless_host"
    by blast
  moreover from c probe_decision[where h = wsl2_host and v = None] have "shouldUseManualOAuthFlow wsl2_host"
    by blast
  moreover from d probe_decision[where h = desktop_host and v = None] have "\<not> shouldUseManualOAuthFlow desktop_host"
    by blast
  ultimately show ?thesis using a b c d by blast
qed

section \<open>Parsing the pasted input\<close>

lemma truthy_iff: "truthy x \<longleftrightarrow> (\<exists>s. x = Some s \<and> s \<noteq> [])"
  by (cases x) simp_all

lemma trim_callback_url:
  "trim ''http://localhost:51122/oauth-callback?code=X&state=Y''
     = ''http://localhost:51122/oauth-callback?code=X&state=Y''"
  by (simp add: trim_def is_js_space_def)

lemma trim_justacode: "trim ''justacode'' = ''justacode''"
  by (simp add: trim_def is_js_space_def)

lemma trim_blank: "trim ''   '' = []"
  by (simp add: trim_def is_js_space_def)

lemma simple_URL_callback:
  "simple_URL ''http://localhost:51122/oauth-callback?code=X&state=Y''
     = Some \<lparr>pathname = ''/oauth-callback'',
             searchParams = [(''code'', ''X''), (''state'', ''Y'')]\<rparr>"
  by (simp add: simple_URL_def before_def after_def is_alpha_def is_scheme_char_def
      toLowerCase_def toLowerCase_char_def lower_table_def parse_query_def form_decode_def
      Let_def)

lemma simple_URL_empty_state:
  "simple_URL ''http://localhost:51122/oauth-callback?code=X&state=''
     = Some \<lparr>pathname = ''/oauth-callback'',
             searchParams = [(''code'', ''X''), (''state'', [])]\<rparr>"
  by (simp add: simple_URL_def before_def after_def is_alpha_def is_scheme_char_def
      toLowerCase_def toLowerCase_char_def lower_table_def parse_query_def form_decode_def
      Let_def)

lemma simple_URL_justacode: "simple_URL ''justacode'' = None"
  by (simp add: simple_URL_def before_def after_def)

lemma simple_URL_nothing: "simple_URL [] = None"
  by (simp add: simple_URL_def before_def after_def)

text \<open>
  Claim C5, as stated, fails on two inputs.  A blank line is not a URL, yet the parser does
  not return it as the code: it fails with \<open>No input provided\<close>.  A URL whose \<open>state\<close>
  parameter is present but empty does not parse to that state: it fails with
  \<open>Missing 'state' parameter\<close>.
\<close>

theorem parseCallbackInput_counterexample:
  "simple_URL (trim ''   '') = None
   \<and> parseCallbackInput simple_URL ''   '' ''E'' = ParseError ''No input provided''
   \<and> parseCallbackInput simple_URL ''   '' ''E'' \<noteq> CodeState (trim ''   '') ''E''
   \<and> parseCallbackInput simple_URL
        ''http://localhost:51122/oauth-callback?code=X&state='' ''E''
        = ParseError ''Missing 'state' parameter. Paste the full URL.''"
  by (simp add: parseCallbackInput_def trim_blank simple_URL_nothing trim_def is_js_space_def
      simple_URL_empty_state searchParams_get_def)

text \<open>
  Claim C5, amended.  A blank input fails with \<open>No input provided\<close>.  Otherwise, when the
  trimmed input is a URL: a missing or empty \<open>code\<close> parameter fails with
  \<open>Missing 'code' parameter in URL\<close>; the state is the URL's \<open>state\<close> parameter, or the
  expected state when the parameter is absent; an empty state fails with
  \<open>Missing 'state' parameter\<close>; otherwise the result is the code and that state.  When the
  trimmed input is not a URL, the result is the trimmed input as the code, paired with the
  expected state, unless the expected state is empty, which fails.  The two examples of the
  specification parse as it says.  The statement holds for every URL parser \<open>URL\<close>; the
  examples use \<open>simple_URL\<close>.
\<close>

theorem parseCallbackInput_amended:
  "(trim input = [] \<longrightarrow>
      parseCallbackInput URL input expectedState = ParseError ''No input provided'')
   \<and> (trim input \<noteq> [] \<and> URL (trim input) = Some u \<and> \<not> truthy (searchParams_get u ''code'')
      \<longrightarrow> parseCallbackInput URL input expectedState
            = ParseError ''Missing 'code' parameter in URL'')
   \<and> (trim input \<noteq> [] \<and> URL (trim input) = Some u
        \<and> searchParams_get u ''code'' = Some c \<and> c \<noteq> []
        \<and> searchParams_get u ''state'' = Some s \<and> s \<noteq> []
      \<longrightarrow> parseCallbackInput URL input expectedState = CodeState c s)
   \<and> (trim input \<noteq> [] \<and> URL (trim input) = Some u
        \<and> searchParams_get u ''code'' = Some c \<and> c \<noteq> []
        \<and> searchParams_get u ''state'' = None \<and> expectedState \<noteq> []
      \<longrightarrow> parseCallbackInput URL input expectedState = CodeState c expectedState)
   \<and> (trim input \<noteq> [] \<and> URL (trim input) = Some u \<and> truthy (searchParams_get u ''code'')
        \<and> (searchParams_get u ''state'' = Some []
            \<or> searchParams_get u ''state'' = None \<and> expectedState = [])
      \<longrightarrow> parseCallbackInput URL input expectedState
            = ParseError ''Missing 'state' parameter. Paste the full URL.'')
   \<and> (trim input \<noteq> [] \<and> URL (trim input) = None \<and> expectedState \<noteq> []
      \<longrightarrow> parseCallbackInput URL input expectedState = CodeState (trim input) expectedState)
   \<and> (trim input \<noteq> [] \<and> URL (trim input) = None \<and> expectedState = []
      \<longrightarrow> parseCallbackInput URL input expectedState
            = ParseError ''Paste the full redirect URL, not just the code.'')
   \<and> parseCallbackInput simple_URL
        ''http://localhost:51122/oauth-callback?code=X&state=Y'' expectedState
        = CodeState ''X'' ''Y''
   \<and> parseCallbackInput simple_URL ''justacode'' ''E'' = CodeState ''justacode'' ''E''"
proof -
  have ex1: "parseCallbackInput simple_URL
      ''http://localhost:51122/oauth-callback?code=X&state=Y'' expectedState
      = CodeState ''X'' ''Y''"
    by (simp add: parseCallbackInput_def trim_callback_url simple_URL_callback
        searchParams_get_def)
  have ex2: "parseCallbackInput simple_URL ''justacode'' ''E'' = CodeState ''justacode'' ''E''"
    by (simp add: parseCallbackInput_def trim_justacode simple_URL_justacode)
  have general: "parseCallbackInput URL input expectedState =
     (if trim input = [] then ParseError ''No input provided''
      else case URL (trim input) of
        Some u \<Rightarrow>
          if \<not> truthy (searchParams_get u ''code'')
          then ParseError ''Missing 'code' parameter in URL''
          else if (case searchParams_get u ''state'' of Some s \<Rightarrow> s | None \<Rightarrow> expectedState) = []
          then ParseError ''Missing 'state' parameter. Paste the full URL.''
          else CodeState (the (searchParams_get u ''code''))
                 (case searchParams_get u ''state'' of Some s \<Rightarrow> s | None \<Rightarrow> expectedState)
      | None \<Rightarrow>
          if expectedState = []
          then ParseError ''Paste the full redirect URL, not just the code.''
          else CodeState (trim input) expectedState)"
    by (simp add: parseCallbackInput_def Let_def split: option.splits)
  show ?thesis
    unfolding general using ex1 ex2 unfolding general
    by (auto simp: truthy_iff)
qed

theorem parseCallbackInput_amended_witness:
  "trim ''justacode'' \<noteq> [] \<and> simple_URL (trim ''justacode'') = None \<and> ''E'' \<noteq> []
   \<and> parseCallbackInput simple_URL ''justacode'' ''E'' = CodeState (trim ''justacode'') ''E''
   \<and> trim ''   '' = []
   \<and> parseCallbackInput simple_URL ''   '' ''E'' = ParseError ''No input provided''"
proof -
  have a: "trim ''justacode'' \<noteq> []" "simple_URL (trim ''justacode'') = None" "''E'' \<noteq> []"
    by (simp_all add: trim_justacode simple_URL_justacode)
  have b: "trim ''   '' = []" by (rule trim_blank)
  from a parseCallbackInput_amended[where URL = simple_URL and input = "''justacode''"
      and expectedState = "''E''"]
  have "parseCallbackInput simple_URL ''justacode'' ''E'' = CodeState (trim ''justacode'') ''E''"
    by blast
  moreover from b parseCallbackInput_amended[where URL = simple_URL and input = "''   ''"
      and expectedState = "''E''"]
  have "parseCallbackInput simple_URL ''   '' ''E'' = ParseError ''No input provided''"
    by blast
  ultimately show ?thesis using a b by blast
qed

section \<open>The PKCE pair\<close>

lemma length_toString_hex: "length (toString_hex bs) = 2 * length bs"
  by (induction bs) (simp_all add: toString_hex_def hex_byte_def)

lemma hex_digit_lower: "hex_digit n \<in> set ''0123456789abcdef''"
proof -
  have "n mod 16 < length ''0123456789abcdef''" by simp
  then show ?thesis unfolding hex_digit_def by (rule nth_mem)
qed

lemma toString_hex_chars: "list_all (\<lambda>c. c \<in> set ''0123456789abcdef'') (toString_hex bs)"
  using hex_digit_lower by (induction bs) (simp_all add: toString_hex_def hex_byte_def)

lemma sextet_in_alphabet: "sextet n \<in> set base64url_alphabet"
proof -
  have "n mod 64 < length base64url_alphabet" by (simp add: base64url_alphabet_def)
  then show ?thesis unfolding sextet_def by (rule nth_mem)
qed

lemma base64url_chars: "list_all (\<lambda>c. c \<in> set base64url_alphabet) (base64url bs)"
  by (induction bs rule: base64url.induct) (simp_all add: sextet_in_alphabet)

lemma no_padding_char: "CHR ''='' \<notin> set base64url_alphabet"
  by (simp add: base64url_alphabet_def)

lemma randomBytes_eq:
  "randomBytes n w = (map (entropy w) [drawn w ..< drawn w + n], w\<lparr>drawn := drawn w + n\<rparr>)"
  by (simp add: randomBytes_def)

lemma generatePKCE_eq:
  "generatePKCE hash w =
     ((toString_hex (map (entropy w) [drawn w ..< drawn w + 32]),
       base64url (hash (toString_hex (map (entropy w) [drawn w ..< drawn w + 32])))),
      w\<lparr>drawn := drawn w + 32\<rparr>)"
  by (simp add: generatePKCE_def randomBytes_def Let_def)

text \<open>
  Claim C8.  For every pair that \<open>generatePKCE\<close> returns, with any hash function in the
  place of SHA-256: the challenge is the unpadded base64url encoding of the hash of the
  verifier; the verifier is the hexadecimal form of the 32 bytes that \<open>randomBytes(32)\<close>
  returned (the platform's secure random source), so it has 64 characters, within the 43 to
  128 that PKCE allows, all of them hexadecimal digits; and the challenge holds no padding
  character.
\<close>

theorem generatePKCE_pair:
  assumes "generatePKCE hash w = ((verifier, challenge), w')"
  shows "challenge = base64url (hash verifier)
    \<and> verifier = toString_hex (fst (randomBytes 32 w))
    \<and> length (fst (randomBytes 32 w)) = 32
    \<and> w' = snd (randomBytes 32 w)
    \<and> length verifier = 64 \<and> 43 \<le> length verifier \<and> length verifier \<le> 128
    \<and> list_all (\<lambda>c. c \<in> set ''0123456789abcdef'') verifier
    \<and> list_all (\<lambda>c. c \<in> set base64url_alphabet) challenge
    \<and> CHR ''='' \<notin> set challenge"
proof -
  from assms have v: "verifier = toString_hex (map (entropy w) [drawn w ..< drawn w + 32])"
    and c: "challenge = base64url (hash verifier)"
    and w': "w' = w\<lparr>drawn := drawn w + 32\<rparr>"
    by (auto simp: generatePKCE_eq)
  have len: "length verifier = 64" by (simp add: v length_toString_hex)
  have np: "CHR ''='' \<notin> set challenge"
    using base64url_chars[of "hash verifier"] no_padding_char by (auto simp: c list_all_iff)
  show ?thesis
    using v c w' len np toString_hex_chars[of "map (entropy w) [drawn w ..< drawn w + 32]"]
      base64url_chars[of "hash verifier"]
    by (simp add: randomBytes_eq length_toString_hex)
qed

theorem generatePKCE_pair_witness:
  "generatePKCE (\<lambda>s. [1, 2, 3]) fresh_world
     = ((toString_hex (fst (randomBytes 32 fresh_world)), ''AQID''),
        snd (randomBytes 32 fresh_world))
   \<and> ''AQID'' = base64url [1, 2, 3]
   \<and> length (toString_hex (fst (randomBytes 32 fresh_world))) = 64"
proof -
  have b: "base64url [1, 2, 3] = ''AQID''"
    by code_simp
  have run: "generatePKCE (\<lambda>s. [1, 2, 3]) fresh_world
     = ((toString_hex (fst (randomBytes 32 fresh_world)), ''AQID''),
        snd (randomBytes 32 fresh_world))"
    by (simp only: generatePKCE_eq randomBytes_eq b fst_conv snd_conv)
  from generatePKCE_pair[OF run] run b show ?thesis by (simp del: base64url.simps)
qed

section \<open>The encodings are injective\<close>














section \<open>Token exchange and refresh\<close>

lemma desktop_run_credentials:
  "getGoogleCredentials (the_host (desktop_run response requests)) = Inr (''id'', ''secret'')"
  by (simp add: desktop_run_def configured_desktop_def getGoogleCredentials_def)

lemma desktop_run_token_endpoint:
  "token_endpoint (desktop_run response requests) req = Inr response"
  by (simp add: desktop_run_def)

lemma getUserEmail_result:
  "getUserEmail sc t w =
     (case userinfo_endpoint sc (userinfo_request t) of
        Inl thrown \<Rightarrow> None
      | Inr response \<Rightarrow>
          if ok response then (case body_json response of Inl thrown \<Rightarrow> None | Inr e \<Rightarrow> e)
          else None,
      w\<lparr>fetch_log := fetch_log w @ [userinfo_request t]\<rparr>)"
  by (simp add: getUserEmail_def fetch_def split: sum.splits)

text \<open>
  Claim C6.  Let the client credentials be configured and let the token endpoint answer the
  code-exchange request with \<open>response\<close>.  (1) If the status is not a success, the exchange
  throws \<open>Token exchange failed:\<close> followed by the response body, after that one request and
  no other.  (2) If the status is a success and the parsed body has no refresh token (absent
  or empty), the exchange throws the missing-refresh-token error, whose text tells the
  operator to revoke access and try again.  (3) Whenever the exchange returns a credential,
  its refresh token is not empty.  (4) If the status is a success and the body has a refresh
  token, then whatever the user-info endpoint does, the exchange returns a credential, and
  its email is absent when the lookup throws, answers with a failure status, or has a body
  that is not JSON.
\<close>

theorem exchange_error_handling:
  assumes creds: "getGoogleCredentials (the_host sc) = Inr (clientId, clientSecret)"
    and answer: "token_endpoint sc (exchange_request clientId clientSecret c v) = Inr response"
  shows
    "(\<not> ok response \<longrightarrow>
        exchangeCodeForTokens sc c v w =
          (Inl (Error (''Token exchange failed: '' @ body_text response)),
           w\<lparr>fetch_log := fetch_log w @ [exchange_request clientId clientSecret c v]\<rparr>))
     \<and> (ok response \<and> body_json response = Inr data \<and> \<not> truthy (refresh_token data) \<longrightarrow>
        exchangeCodeForTokens sc c v w =
          (Inl (Error no_refresh_token),
           w\<lparr>fetch_log := fetch_log w @ [exchange_request clientId clientSecret c v]\<rparr>))
     \<and> js_includes no_refresh_token ''revoke access''
     \<and> js_includes no_refresh_token ''try again''
     \<and> (\<forall>cred w'. exchangeCodeForTokens sc c v w = (Inr cred, w') \<longrightarrow> refresh cred \<noteq> [])
     \<and> (ok response \<and> body_json response = Inr data \<and> truthy (refresh_token data) \<longrightarrow>
        (\<forall>lookup. \<exists>cred w'.
           exchangeCodeForTokens (sc\<lparr>userinfo_endpoint := lookup\<rparr>) c v w = (Inr cred, w')
           \<and> access cred = access_token data
           \<and> refresh_token data = Some (refresh cred)
           \<and> email cred
               = fst (getUserEmail (sc\<lparr>userinfo_endpoint := lookup\<rparr>) (access_token data) w)
           \<and> ((case lookup (userinfo_request (access_token data)) of
                  Inl thrown \<Rightarrow> True
                | Inr reply \<Rightarrow> \<not> ok reply \<or> isl (body_json reply))
                \<longrightarrow> email cred = None)))"
proof -
  have msg1: "js_includes no_refresh_token ''revoke access''"
    by (simp add: no_refresh_token_def)
  have msg2: "js_includes no_refresh_token ''try again''"
    by (simp add: no_refresh_token_def)
  show ?thesis
    using creds answer msg1 msg2
    apply (intro conjI)
    apply (auto simp: exchangeCodeForTokens_def fetch_def Let_def getUserEmail_def truthy_iff
        split: sum.splits prod.splits option.splits if_splits)
    done
qed

theorem exchange_error_handling_witness:
  "\<not> ok refused
   \<and> fst (exchangeCodeForTokens (desktop_run refused []) ''4/code'' ''verifier'' fresh_world)
       = Inl (Error ''Token exchange failed: {\"error\": \"invalid_grant\"}'')
   \<and> ok granted_without_refresh
   \<and> \<not> truthy (refresh_token (projr (body_json granted_without_refresh)))
   \<and> fst (exchangeCodeForTokens (desktop_run granted_without_refresh []) ''4/code'' ''verifier''
            fresh_world)
       = Inl (Error no_refresh_token)
   \<and> ok granted \<and> truthy (refresh_token (projr (body_json granted)))
   \<and> userinfo_endpoint (desktop_run granted []) (userinfo_request ''at'')
       = Inl (Error ''fetch failed'')
   \<and> (\<exists>cred. fst (exchangeCodeForTokens (desktop_run granted []) ''4/code'' ''verifier''
                    fresh_world) = Inr cred
          \<and> refresh cred = ''rt'' \<and> email cred = None)"
proof -
  have r: "\<not> ok refused" "body_text refused = ''{\"error\": \"invalid_grant\"}''"
    by (simp_all add: refused_def)
  have n: "ok granted_without_refresh"
    "body_json granted_without_refresh
       = Inr \<lparr>access_token = ''at'', refresh_token = None, expires_in = 3599\<rparr>"
    by (simp_all add: granted_without_refresh_def)
  have g: "ok granted"
    "body_json granted = Inr \<lparr>access_token = ''at'', refresh_token = Some ''rt'', expires_in = 3599\<rparr>"
    by (simp_all add: granted_def)
  have u: "userinfo_endpoint (desktop_run granted []) (userinfo_request ''at'')
      = Inl (Error ''fetch failed'')"
    by (simp add: desktop_run_def)
  have same: "(desktop_run granted [])\<lparr>userinfo_endpoint := userinfo_endpoint (desktop_run granted [])\<rparr>
      = desktop_run granted []"
    by simp
  from r exchange_error_handling[OF desktop_run_credentials[of refused "[]"] desktop_run_token_endpoint[of refused "[]"],
      where c = "''4/code''"
      and v = "''verifier''" and w = fresh_world]
  have 1: "fst (exchangeCodeForTokens (desktop_run refused []) ''4/code'' ''verifier'' fresh_world)
      = Inl (Error ''Token exchange failed: {\"error\": \"invalid_grant\"}'')"
    by simp
  from n exchange_error_handling[OF desktop_run_credentials[of granted_without_refresh "[]"] desktop_run_token_endpoint[of granted_without_refresh "[]"],
      where c = "''4/code''"
      and v = "''verifier''" and w = fresh_world
      and data = "\<lparr>access_token = ''at'', refresh_token = None, expires_in = 3599\<rparr>"]
  have 2: "fst (exchangeCodeForTokens (desktop_run granted_without_refresh []) ''4/code''
      ''verifier'' fresh_world) = Inl (Error no_refresh_token)"
    by simp
  from g exchange_error_handling[OF desktop_run_credentials[of granted "[]"] desktop_run_token_endpoint[of granted "[]"],
      where c = "''4/code''"
      and v = "''verifier''" and w = fresh_world
      and data = "\<lparr>access_token = ''at'', refresh_token = Some ''rt'', expires_in = 3599\<rparr>"]
  have "\<forall>lookup. \<exists>cred w'.
      exchangeCodeForTokens ((desktop_run granted [])\<lparr>userinfo_endpoint := lookup\<rparr>) ''4/code''
        ''verifier'' fresh_world = (Inr cred, w')
      \<and> access cred = ''at''
      \<and> Some ''rt'' = Some (refresh cred)
      \<and> email cred
          = fst (getUserEmail ((desktop_run granted [])\<lparr>userinfo_endpoint := lookup\<rparr>) ''at''
                  fresh_world)
      \<and> ((case lookup (userinfo_request ''at'') of
             Inl thrown \<Rightarrow> True | Inr reply \<Rightarrow> \<not> ok reply \<or> isl (body_json reply))
           \<longrightarrow> email cred = None)"
    by simp
  from this[rule_format, of "userinfo_endpoint (desktop_run granted [])"] u
  have 3: "\<exists>cred. fst (exchangeCodeForTokens (desktop_run granted []) ''4/code'' ''verifier''
      fresh_world) = Inr cred \<and> refresh cred = ''rt'' \<and> email cred = None"
    unfolding same by auto
  from 1 2 3 r n g u show ?thesis by simp
qed





text \<open>
  Claim C9.  Let the client credentials be configured and let the token endpoint answer the
  refresh request with \<open>response\<close>.  The refresh sends that one request and no other: a
  form-encoded \<open>POST\<close> to the token endpoint with \<open>grant_type=refresh_token\<close> and the given
  refresh token.  A failure status makes it throw \<open>Token refresh failed:\<close> followed by the
  response body.  A success returns exactly \<open>access\<close> and \<open>expires\<close>, computed from the
  answer's \<open>access_token\<close> and \<open>expires_in\<close> and from nothing else in it.  A stored credential
  amended with that result keeps its refresh token and its email.
\<close>

theorem refresh_frame:
  assumes creds: "getGoogleCredentials (the_host sc) = Inr (clientId, clientSecret)"
    and answer: "token_endpoint sc (refresh_request clientId clientSecret r) = Inr response"
  shows
    "snd (refreshGoogleToken sc r w)
        = w\<lparr>fetch_log := fetch_log w @ [refresh_request clientId clientSecret r]\<rparr>
     \<and> request_url (refresh_request clientId clientSecret r) = TOKEN_URL
     \<and> http_verb (refresh_request clientId clientSecret r) = ''POST''
     \<and> map_of (headers (refresh_request clientId clientSecret r)) ''Content-Type''
          = Some ''application/x-www-form-urlencoded''
     \<and> map_of (form (refresh_request clientId clientSecret r)) ''grant_type''
          = Some ''refresh_token''
     \<and> map_of (form (refresh_request clientId clientSecret r)) ''refresh_token'' = Some r
     \<and> (\<not> ok response \<longrightarrow>
          fst (refreshGoogleToken sc r w)
            = Inl (Error (''Token refresh failed: '' @ body_text response)))
     \<and> (ok response \<and> body_json response = Inr data \<longrightarrow>
          fst (refreshGoogleToken sc r w)
            = Inr \<lparr>access = access_token data,
                   expires = now sc + expires_in data * 1000 - 300000\<rparr>)
     \<and> (\<forall>refreshed. fst (refreshGoogleToken sc r w) = Inr refreshed \<longrightarrow>
          refresh (amend_credential stored refreshed) = refresh stored
          \<and> email (amend_credential stored refreshed) = email stored
          \<and> access (amend_credential stored refreshed) = access refreshed
          \<and> expires (amend_credential stored refreshed) = expires refreshed)"
  using creds answer
  by (auto simp: refreshGoogleToken_def fetch_def Let_def refresh_request_def
      amend_credential_def split: sum.splits prod.splits if_splits)

theorem refresh_frame_witness:
  "\<not> ok refused
   \<and> fst (refreshGoogleToken (desktop_run refused []) ''rt'' fresh_world)
       = Inl (Error ''Token refresh failed: {\"error\": \"invalid_grant\"}'')
   \<and> ok granted
   \<and> fst (refreshGoogleToken (desktop_run granted []) ''rt'' fresh_world)
       = Inr \<lparr>access = ''at'', expires = 1700003299000\<rparr>
   \<and> fetch_log (snd (refreshGoogleToken (desktop_run granted []) ''rt'' fresh_world))
       = [refresh_request ''id'' ''secret'' ''rt'']
   \<and> amend_credential
        \<lparr>access = ''old'', expires = 5, refresh = ''rt'', email = Some ''a@example.org''\<rparr>
        \<lparr>access = ''at'', expires = 1700003299000\<rparr>
       = \<lparr>access = ''at'', expires = 1700003299000, refresh = ''rt'',
          email = Some ''a@example.org''\<rparr>"
proof -
  have r: "\<not> ok refused" "body_text refused = ''{\"error\": \"invalid_grant\"}''"
    by (simp_all add: refused_def)
  have g: "ok granted"
    "body_json granted = Inr \<lparr>access_token = ''at'', refresh_token = Some ''rt'', expires_in = 3599\<rparr>"
    by (simp_all add: granted_def)
  from r refresh_frame[OF desktop_run_credentials[of refused "[]"] desktop_run_token_endpoint[of refused "[]"],
      where r = "''rt''" and w = fresh_world]
  have 1: "fst (refreshGoogleToken (desktop_run refused []) ''rt'' fresh_world)
      = Inl (Error ''Token refresh failed: {\"error\": \"invalid_grant\"}'')"
    by simp
  from g refresh_frame[OF desktop_run_credentials[of granted "[]"] desktop_run_token_endpoint[of granted "[]"],
      where r = "''rt''" and w = fresh_world
      and data = "\<lparr>access_token = ''at'', refresh_token = Some ''rt'', expires_in = 3599\<rparr>"]
  have 2: "fst (refreshGoogleToken (desktop_run granted []) ''rt'' fresh_world)
      = Inr \<lparr>access = ''at'', expires = 1700003299000\<rparr>"
    and 3: "fetch_log (snd (refreshGoogleToken (desktop_run granted []) ''rt'' fresh_world))
      = [refresh_request ''id'' ''secret'' ''rt'']"
    by (simp_all add: desktop_run_def fresh_world_def)
  from 1 2 3 r g show ?thesis by (simp add: amend_credential_def)
qed

section \<open>Choosing the account\<close>

lemma find_first:
  assumes "profiles = earlier @ p # later" and "P p" and "\<forall>q \<in> set earlier. \<not> P q"
  shows "find P profiles = Some p"
  using assms by (induction earlier arbitrary: profiles) auto

text \<open>
  Claim C10, as stated, fails when no profile is stored: no profile id contains the account
  then, yet the call does not fail with \<open>Google account not found\<close> but with
  \<open>No Google Workspace account configured\<close>.
\<close>

theorem account_selection_counterexample:
  "list_all (\<lambda>q. \<not> js_includes q ''bob'') []
   \<and> resolveGoogleAccessToken [] (\<lambda>p. Inr (Some ''key'')) (Some ''bob'')
        = Inl (Error ''No Google Workspace account configured. Run: clawdbot google login'')
   \<and> resolveGoogleAccessToken [] (\<lambda>p. Inr (Some ''key'')) (Some ''bob'')
        \<noteq> Inl (Error (''Google account not found: '' @ ''bob'' @ ''. Available: ''
                        @ join '', '' []))"
  by (simp add: resolveGoogleAccessToken_def)

text \<open>
  Claim C10, amended.  When at least one profile is stored: with a non-empty account
  argument \<open>a\<close> the profile used is the first stored profile id that contains \<open>a\<close> as a
  substring (every earlier one does not contain it); if no stored profile id contains \<open>a\<close>
  the call fails with \<open>Google account not found: a. Available:\<close> followed by the profile
  ids separated by commas; with no account argument, or an empty one, the first stored
  profile is used.  The profile used is the one whose key \<open>resolveApiKeyForProfile\<close> is
  asked for.  With no stored profile the call fails with
  \<open>No Google Workspace account configured\<close>, whatever the account argument is.
\<close>

theorem account_selection:
  "(profiles \<noteq> [] \<and> a \<noteq> [] \<and> profiles = earlier @ p # later \<and> (\<exists>x y. p = x @ a @ y)
        \<and> (\<forall>q \<in> set earlier. \<not> (\<exists>x y. q = x @ a @ y))
      \<longrightarrow> resolveGoogleAccessToken profiles resolver (Some a) = resolve_profile resolver p)
   \<and> (profiles \<noteq> [] \<and> a \<noteq> [] \<and> (\<forall>q \<in> set profiles. \<not> (\<exists>x y. q = x @ a @ y))
      \<longrightarrow> resolveGoogleAccessToken profiles resolver (Some a)
            = Inl (Error (''Google account not found: '' @ a @ ''. Available: ''
                          @ join '', '' profiles)))
   \<and> (profiles \<noteq> []
      \<longrightarrow> resolveGoogleAccessToken profiles resolver None
            = resolve_profile resolver (hd profiles)
          \<and> resolveGoogleAccessToken profiles resolver (Some [])
            = resolve_profile resolver (hd profiles))
   \<and> resolveGoogleAccessToken [] resolver account
        = Inl (Error ''No Google Workspace account configured. Run: clawdbot google login'')"
proof -
  have first: "resolveGoogleAccessToken profiles resolver (Some a) = resolve_profile resolver p"
    if "profiles \<noteq> []" "a \<noteq> []" "profiles = earlier @ p # later" "\<exists>x y. p = x @ a @ y"
      "\<forall>q \<in> set earlier. \<not> (\<exists>x y. q = x @ a @ y)"
  proof -
    have "find (\<lambda>q. js_includes q a) profiles = Some p"
      using that(3-5) by (intro find_first[of _ earlier p later]) (simp_all add: js_includes_iff)
    with that(1,2) show ?thesis
      by (simp add: resolveGoogleAccessToken_def choose_profile_def)
  qed
  have none: "resolveGoogleAccessToken profiles resolver (Some a)
      = Inl (Error (''Google account not found: '' @ a @ ''. Available: '' @ join '', '' profiles))"
    if "profiles \<noteq> []" "a \<noteq> []" "\<forall>q \<in> set profiles. \<not> (\<exists>x y. q = x @ a @ y)"
  proof -
    have "find (\<lambda>q. js_includes q a) profiles = None"
      using that(3) by (simp add: find_None_iff js_includes_iff)
    with that(1,2) show ?thesis
      by (simp add: resolveGoogleAccessToken_def choose_profile_def)
  qed
  have default:
    "resolveGoogleAccessToken profiles resolver None = resolve_profile resolver (hd profiles)"
    "resolveGoogleAccessToken profiles resolver (Some []) = resolve_profile resolver (hd profiles)"
    if "profiles \<noteq> []"
    using that by (simp_all add: resolveGoogleAccessToken_def choose_profile_def hd_conv_nth)
  have empty: "resolveGoogleAccessToken [] resolver account
      = Inl (Error ''No Google Workspace account configured. Run: clawdbot google login'')"
    by (simp add: resolveGoogleAccessToken_def)
  from first none default empty show ?thesis by blast
qed

text \<open>
  Two stored profiles; \<open>work.example\<close> is contained in the second only, \<open>google\<close> in both, \<open>bob\<close> in
  neither.
\<close>

theorem account_selection_witness:
  "resolveGoogleAccessToken
      [''google-workspace:alice@example.org'', ''google-workspace:alice@work.example'']
      (\<lambda>p. Inr (Some (''key of '' @ p))) (Some ''work.example'')
     = Inr ''key of google-workspace:alice@work.example''
   \<and> resolveGoogleAccessToken
      [''google-workspace:alice@example.org'', ''google-workspace:alice@work.example'']
      (\<lambda>p. Inr (Some (''key of '' @ p))) (Some ''google'')
     = Inr ''key of google-workspace:alice@example.org''
   \<and> resolveGoogleAccessToken
      [''google-workspace:alice@example.org'', ''google-workspace:alice@work.example'']
      (\<lambda>p. Inr (Some (''key of '' @ p))) (Some ''bob'')
     = Inl (Error (''Google account not found: bob. Available: '' @
          ''google-workspace:alice@example.org, google-workspace:alice@work.example''))
   \<and> resolveGoogleAccessToken
      [''google-workspace:alice@example.org'', ''google-workspace:alice@work.example'']
      (\<lambda>p. Inr (Some (''key of '' @ p))) None
     = Inr ''key of google-workspace:alice@example.org''"
proof -
  let ?ps = "[''google-workspace:alice@example.org'', ''google-workspace:alice@work.example'']"
  let ?r = "\<lambda>p. Inr (Some (''key of '' @ p)) :: js_error + string option"
  have w1: "\<exists>x y. ''google-workspace:alice@work.example'' = x @ ''work.example'' @ y"
    unfolding js_includes_iff[symmetric] by simp
  have w2: "\<forall>q \<in> set [''google-workspace:alice@example.org'']. \<not> (\<exists>x y. q = x @ ''work.example'' @ y)"
    unfolding js_includes_iff[symmetric] by simp
  have g1: "\<exists>x y. ''google-workspace:alice@example.org'' = x @ ''google'' @ y"
    unfolding js_includes_iff[symmetric] by simp
  have b1: "\<forall>q \<in> set ?ps. \<not> (\<exists>x y. q = x @ ''bob'' @ y)"
    unfolding js_includes_iff[symmetric] by simp
  have 1: "resolveGoogleAccessToken ?ps ?r (Some ''work.example'')
      = resolve_profile ?r ''google-workspace:alice@work.example''"
    using w1 w2 account_selection[where profiles = ?ps and a = "''work.example''"
        and earlier = "[''google-workspace:alice@example.org'']"
        and p = "''google-workspace:alice@work.example''" and later = "[]" and resolver = ?r]
    by simp
  have 2: "resolveGoogleAccessToken ?ps ?r (Some ''google'')
      = resolve_profile ?r ''google-workspace:alice@example.org''"
    using g1 account_selection[where profiles = ?ps and a = "''google''"
        and earlier = "[]" and p = "''google-workspace:alice@example.org''"
        and later = "[''google-workspace:alice@work.example'']" and resolver = ?r]
    by simp
  have 3: "resolveGoogleAccessToken ?ps ?r (Some ''bob'')
      = Inl (Error (''Google account not found: '' @ ''bob'' @ ''. Available: '' @ join '', '' ?ps))"
    using b1 account_selection[where profiles = ?ps and a = "''bob''" and resolver = ?r]
    by simp
  have 4: "resolveGoogleAccessToken ?ps ?r None = resolve_profile ?r (hd ?ps)"
    using account_selection[where profiles = ?ps and resolver = ?r] by simp
  from 1 2 3 4 show ?thesis by (simp add: resolve_profile_def)
qed

section \<open>What the flows leave unchanged\<close>

lemma exchange_frame:
  assumes "exchangeCodeForTokens sc c v w = (r, w')"
  shows "listening w' = listening w \<and> sink_urls w' = sink_urls w
    \<and> progress_log w' = progress_log w \<and> drawn w' = drawn w \<and> entropy w' = entropy w"
  using assms
  by (auto simp: exchangeCodeForTokens_def fetch_def getUserEmail_result Let_def
      split: sum.splits prod.splits if_splits)

lemma request_listener_frame:
  assumes "request_listener st u w = (s, w')"
  shows "sink_urls w' = sink_urls w \<and> progress_log w' = progress_log w
    \<and> drawn w' = drawn w \<and> entropy w' = entropy w \<and> fetch_log w' = fetch_log w
    \<and> listening w' = (case s of Rejected e \<Rightarrow> False | _ \<Rightarrow> listening w)
    \<and> (case s of Resolved r \<Rightarrow> snd r = server_close | _ \<Rightarrow> True)"
  using assms
  by (auto simp: request_listener_def Let_def respond_def server_close_def split: if_splits)

lemma serve_frame:
  assumes "serve st us w = (s, w')"
  shows "sink_urls w' = sink_urls w \<and> progress_log w' = progress_log w
    \<and> drawn w' = drawn w \<and> entropy w' = entropy w \<and> fetch_log w' = fetch_log w
    \<and> listening w' = (case s of Rejected e \<Rightarrow> False | _ \<Rightarrow> listening w)
    \<and> (case s of Resolved r \<Rightarrow> snd r = server_close | _ \<Rightarrow> True)"
  using assms
proof (induction us arbitrary: w)
  case Nil
  then show ?case by auto
next
  case (Cons u us)
  obtain s1 w1 where step: "request_listener st u w = (s1, w1)"
    by (cases "request_listener st u w")
  note f = request_listener_frame[OF step]
  show ?case
  proof (cases s1)
    case Pending
    with Cons.prems step have "serve st us w1 = (s, w')" by simp
    from Cons.IH[OF this] f Pending show ?thesis by (auto split: settlement.splits)
  next
    case (Resolved r)
    with Cons.prems step have "s = s1" "w' = w1" by simp_all
    with f show ?thesis by simp
  next
    case (Rejected e)
    with Cons.prems step have "s = s1" "w' = w1" by simp_all
    with f show ?thesis by simp
  qed
qed

lemma serve_rejected: "serve st us w = (Rejected e, w') \<Longrightarrow> \<not> listening w'"
  by (drule serve_frame) simp

lemma serve_resolved:
  "serve st us w = (Resolved (c, close), w') \<Longrightarrow> close = server_close \<and> listening w' = listening w"
  by (drule serve_frame) simp

lemma local_listening:
  assumes free: "\<not> listening w"
    and sink: "\<forall>u. onUrl_throws sc u = None"
    and run: "loginGoogleWorkspaceLocal sc w = (Some r, w')"
  shows "\<not> listening w'"
  using run free sink
  by (auto simp: loginGoogleWorkspaceLocal_def generatePKCE_eq randomBytes_eq Let_def
      startCallbackServer_def onUrl_def onProgress_def server_close_def
      split: sum.splits prod.splits option.splits settlement.splits
      dest!: serve_rejected serve_resolved exchange_frame)

section \<open>Releasing the port\<close>

text \<open>
  Claim C1, as stated, fails on the success path.  When a request with the code and the
  expected state resolves the listener's promise, the server is still listening at the
  moment the awaiting caller resumes: the listener hands the action that closes it to the
  caller instead of closing it.
\<close>

theorem listener_release_counterexample:
  "listen_error consent_run = None
   \<and> fst (await_server consent_run ''S'' fresh_world) = Resolved (''abc'', server_close)
   \<and> listening (snd (await_server consent_run ''S'' fresh_world))"
  by (simp add: await_server_def startCallbackServer_def consent_run_def desktop_run_def
      callback_request_def request_listener_def searchParams_get_def respond_def Let_def)

text \<open>
  Claim C1, amended.  On each of the three failure paths (provider error, missing code,
  state mismatch) the listener rejects and closes the server itself, so the port is free
  when the awaiting caller resumes; when the bind fails the port was never held.  On the
  success path the listener resolves with the code and the closing action and leaves the
  server listening; the port is free once the caller has run that action.
  \<open>loginGoogleWorkspaceLocal\<close> runs it first thing after its await, so whenever the local
  login returns or throws, with a sink that does not throw, the port is free.
\<close>

theorem listener_release:
  "(pathname u = ''/oauth-callback'' \<and> truthy (searchParams_get u ''error'') \<longrightarrow>
      fst (request_listener st u w)
        = Rejected (Error (''OAuth error: '' @ the (searchParams_get u ''error'')))
      \<and> \<not> listening (snd (request_listener st u w)))
   \<and> (pathname u = ''/oauth-callback'' \<and> \<not> truthy (searchParams_get u ''error'')
        \<and> \<not> truthy (searchParams_get u ''code'') \<longrightarrow>
      fst (request_listener st u w) = Rejected (Error ''Missing authorization code'')
      \<and> \<not> listening (snd (request_listener st u w)))
   \<and> (pathname u = ''/oauth-callback'' \<and> \<not> truthy (searchParams_get u ''error'')
        \<and> truthy (searchParams_get u ''code'') \<and> searchParams_get u ''state'' \<noteq> Some st \<longrightarrow>
      fst (request_listener st u w) = Rejected (Error ''OAuth state mismatch'')
      \<and> \<not> listening (snd (request_listener st u w)))
   \<and> (pathname u = ''/oauth-callback'' \<and> \<not> truthy (searchParams_get u ''error'')
        \<and> truthy (searchParams_get u ''code'') \<and> searchParams_get u ''state'' = Some st \<longrightarrow>
      fst (request_listener st u w)
        = Resolved (the (searchParams_get u ''code''), server_close)
      \<and> listening (snd (request_listener st u w)) = listening w
      \<and> \<not> listening (server_close (snd (request_listener st u w))))
   \<and> (listen_error sc = Some m \<longrightarrow> await_server sc st w = (Rejected (Error m), w))
   \<and> (await_server sc st w = (Rejected e, w') \<and> \<not> listening w \<longrightarrow> \<not> listening w')
   \<and> (await_server sc st w = (Resolved (c, close), w') \<longrightarrow>
        listening w' \<and> close = server_close \<and> \<not> listening (close w'))
   \<and> (\<not> listening w \<and> (\<forall>url. onUrl_throws sc url = None)
        \<and> loginGoogleWorkspaceLocal sc w = (Some r, w'') \<longrightarrow> \<not> listening w'')"
proof -
  have paths: "pathname u = ''/oauth-callback'' \<Longrightarrow>
      request_listener st u w =
        (if truthy (searchParams_get u ''error'')
         then (Rejected (Error (''OAuth error: '' @ the (searchParams_get u ''error''))),
               server_close (respond 400 (''OAuth error: '' @ the (searchParams_get u ''error'')) w))
         else if \<not> truthy (searchParams_get u ''code'')
         then (Rejected (Error ''Missing authorization code''),
               server_close (respond 400 ''Missing authorization code'' w))
         else if searchParams_get u ''state'' \<noteq> Some st
         then (Rejected (Error ''OAuth state mismatch''),
               server_close (respond 400 ''State mismatch'' w))
         else (Resolved (the (searchParams_get u ''code''), server_close),
               respond 200 success_page w))"
    by (simp add: request_listener_def Let_def)
  have rej: "\<not> listening w'" if "await_server sc st w = (Rejected e, w')" "\<not> listening w"
    using that
    by (auto simp: await_server_def startCallbackServer_def split: option.splits
        dest: serve_rejected)
  have res: "listening w' \<and> close = server_close \<and> \<not> listening (close w')"
    if "await_server sc st w = (Resolved (c, close), w')"
    using that
    by (auto simp: await_server_def startCallbackServer_def server_close_def
        split: option.splits dest!: serve_resolved)
  have login: "\<not> listening w''"
    if "\<not> listening w" "\<forall>url. onUrl_throws sc url = None"
      "loginGoogleWorkspaceLocal sc w = (Some r, w'')"
    using that by (rule local_listening)
  have bind: "await_server sc st w = (Rejected (Error m), w)" if "listen_error sc = Some m"
    using that by (simp add: await_server_def startCallbackServer_def)
  show ?thesis
    using rej res login bind
    by (auto simp: paths server_close_def respond_def)
qed

theorem listener_release_witness:
  "pathname (callback_request [(''code'', ''abc''), (''state'', ''S'')]) = ''/oauth-callback''
   \<and> await_server consent_run ''S'' fresh_world
       = (Resolved (''abc'', server_close), snd (await_server consent_run ''S'' fresh_world))
   \<and> listening (snd (await_server consent_run ''S'' fresh_world))
   \<and> \<not> listening (server_close (snd (await_server consent_run ''S'' fresh_world)))
   \<and> \<not> listening fresh_world
   \<and> await_server denied_run ''S'' fresh_world
       = (Rejected (Error ''OAuth error: unsupported_response_type''),
          snd (await_server denied_run ''S'' fresh_world))
   \<and> \<not> listening (snd (await_server denied_run ''S'' fresh_world))"
proof -
  have a: "await_server consent_run ''S'' fresh_world
      = (Resolved (''abc'', server_close), snd (await_server consent_run ''S'' fresh_world))"
    by (simp add: await_server_def startCallbackServer_def consent_run_def desktop_run_def
        callback_request_def request_listener_def searchParams_get_def respond_def Let_def)
  have b: "await_server denied_run ''S'' fresh_world
      = (Rejected (Error ''OAuth error: unsupported_response_type''),
         snd (await_server denied_run ''S'' fresh_world))"
    by (simp add: await_server_def startCallbackServer_def denied_run_def desktop_run_def
        callback_request_def request_listener_def searchParams_get_def respond_def Let_def)
  have f: "\<not> listening fresh_world" by (simp add: fresh_world_def)
  have p: "pathname (callback_request [(''code'', ''abc''), (''state'', ''S'')]) = ''/oauth-callback''"
    by (simp add: callback_request_def)
  from a listener_release[where sc = consent_run and st = "''S''" and w = fresh_world
      and c = "''abc''" and close = server_close
      and w' = "snd (await_server consent_run ''S'' fresh_world)"]
  have 1: "listening (snd (await_server consent_run ''S'' fresh_world))"
    "\<not> listening (server_close (snd (await_server consent_run ''S'' fresh_world)))"
    by blast+
  from b f listener_release[where sc = denied_run and st = "''S''" and w = fresh_world
      and e = "Error ''OAuth error: unsupported_response_type''"
      and w' = "snd (await_server denied_run ''S'' fresh_world)"]
  have 2: "\<not> listening (snd (await_server denied_run ''S'' fresh_world))"
    by blast
  from a b f p 1 2 show ?thesis by blast
qed

section \<open>When the orchestrator falls back to the manual flow\<close>

lemma configured_desktop_local: "\<not> shouldUseManualOAuthFlow configured_desktop"
  by (simp add: shouldUseManualOAuthFlow_def isWSL2_def isWSL_def isRemoteEnvironment_def
      configured_desktop_def)


lemma no_fallback_on_missing_code_or_mismatch:
  "\<not> fallback_condition (Error ''Missing authorization code'')
   \<and> \<not> fallback_condition (Error ''OAuth state mismatch'')
   \<and> \<not> fallback_condition (Error no_refresh_token)
   \<and> \<not> fallback_condition (NonError v)"
  by (simp add: fallback_condition_def no_refresh_token_def)

lemma fallback_on_other_errors:
  "fallback_condition (Error ''OAuth error: unsupported_response_type'')
   \<and> fallback_condition (Error ''Token exchange failed: {\"error\": \"unsupported_grant_type\"}'')
   \<and> fallback_condition (Error credentials_not_configured)"
  by (simp add: fallback_condition_def credentials_not_configured_def)

lemma login_falls_back:
  assumes "\<not> shouldUseManualOAuthFlow (the_host sc)"
    and "loginGoogleWorkspaceLocal sc w = (Some (Inl err), w1)"
    and "fallback_condition err"
  shows "loginGoogleWorkspace sc w
    = loginGoogleWorkspaceManual sc
        (onProgress ''Local callback server failed. Switching to manual mode...'' w1)"
  using assms by (simp add: loginGoogleWorkspace_def)

lemma login_does_not_fall_back:
  assumes "\<not> shouldUseManualOAuthFlow (the_host sc)"
    and "loginGoogleWorkspaceLocal sc w = (Some (Inl err), w1)"
    and "\<not> fallback_condition err"
  shows "loginGoogleWorkspace sc w = (Some (Inl err), w1)"
  using assms by (simp add: loginGoogleWorkspace_def)

text \<open>
  Claim C2 on a run without any bind failure.  The listener binds, and the provider redirects
  to the callback path with \<open>error=unsupported_response_type\<close>.  The local flow throws
  \<open>OAuth error: unsupported_response_type\<close>; the text contains \<open>port\<close>, so the orchestrator
  reports that the local callback server failed, starts the manual flow, hands a second URL
  to the sink and waits for the operator, where the claim has the attempt end with the
  provider's error.
\<close>

theorem provider_error_falls_back:
  "\<not> shouldUseManualOAuthFlow (the_host denied_run)
   \<and> listen_error denied_run = None
   \<and> fst (loginGoogleWorkspaceLocal denied_run fresh_world)
       = Some (Inl (Error ''OAuth error: unsupported_response_type''))
   \<and> fst (loginGoogleWorkspace denied_run fresh_world) = None
   \<and> progress_log (snd (loginGoogleWorkspace denied_run fresh_world))
       = [''Waiting for authorization in browser...'',
          ''Local callback server failed. Switching to manual mode...'',
          ''Waiting for you to paste the callback URL...'']
   \<and> length (sink_urls (snd (loginGoogleWorkspace denied_run fresh_world))) = 2"
proof -
  have h: "the_host denied_run = configured_desktop" "listen_error denied_run = None"
    "operator_line denied_run = None" "onUrl_throws denied_run = (\<lambda>u. None)"
    "incoming denied_run = [callback_request [(''error'', ''unsupported_response_type'')]]"
    by (simp_all add: denied_run_def desktop_run_def)
  have creds: "getGoogleCredentials configured_desktop = Inr (''id'', ''secret'')"
    by (simp add: configured_desktop_def getGoogleCredentials_def)
  have req: "request_listener st (callback_request [(''error'', ''unsupported_response_type'')]) w
      = (Rejected (Error ''OAuth error: unsupported_response_type''),
         server_close (respond 400 ''OAuth error: unsupported_response_type'' w))" for st w
    by (simp add: request_listener_def callback_request_def searchParams_get_def Let_def)
  have fb: "fallback_condition (Error ''OAuth error: unsupported_response_type'')"
    by (simp add: fallback_condition_def)
  have local: "loginGoogleWorkspaceLocal denied_run fresh_world
      = (Some (Inl (Error ''OAuth error: unsupported_response_type'')),
         snd (loginGoogleWorkspaceLocal denied_run fresh_world))"
    by (simp add: loginGoogleWorkspaceLocal_def generatePKCE_eq randomBytes_eq buildAuthUrl_def
        h creds startCallbackServer_def onUrl_def req Let_def)
  have w1: "progress_log (snd (loginGoogleWorkspaceLocal denied_run fresh_world))
      = [''Waiting for authorization in browser...'']"
    "length (sink_urls (snd (loginGoogleWorkspaceLocal denied_run fresh_world))) = 1"
    by (simp_all add: loginGoogleWorkspaceLocal_def generatePKCE_eq randomBytes_eq
        buildAuthUrl_def h creds startCallbackServer_def onUrl_def req Let_def onProgress_def
        server_close_def respond_def fresh_world_def)
  have manual: "fst (loginGoogleWorkspaceManual denied_run w) = None
      \<and> progress_log (snd (loginGoogleWorkspaceManual denied_run w))
          = progress_log w @ [''Waiting for you to paste the callback URL...'']
      \<and> length (sink_urls (snd (loginGoogleWorkspaceManual denied_run w)))
          = Suc (length (sink_urls w))" for w
    by (simp add: loginGoogleWorkspaceManual_def generatePKCE_eq randomBytes_eq buildAuthUrl_def
        h creds onUrl_def Let_def onProgress_def promptInput_def)
  have login: "loginGoogleWorkspace denied_run fresh_world
      = loginGoogleWorkspaceManual denied_run
          (onProgress ''Local callback server failed. Switching to manual mode...''
            (snd (loginGoogleWorkspaceLocal denied_run fresh_world)))"
    using configured_desktop_local by (intro login_falls_back[OF _ local fb]) (simp add: h)
  from local have lf: "fst (loginGoogleWorkspaceLocal denied_run fresh_world)
      = Some (Inl (Error ''OAuth error: unsupported_response_type''))"
    by (metis fst_conv)
  show ?thesis
    using lf configured_desktop_local
    by (simp add: login manual w1 onProgress_def h)
qed

section \<open>Fresh secrets on the fallback\<close>



























end
